theory Spec2Isabelle
  imports Complex_Main
begin

section \<open>Messages\<close>

text \<open>
  The node \<^verbatim>\<open>nodes/navigate_to_aruco.py\<close> exchanges ROS messages. Only the fields the
  node reads or writes are kept. A Python float is a real number (every double is one).
  The additions and the division of \<^verbatim>\<open>average_transforms\<close>, which round in doubles, are
  parameters of the model (\<open>float_add\<close>, \<open>float_div\<close> below); the arithmetic of
  \<^verbatim>\<open>calculate_diff\<close> is that of the reals. Time stamps (\<^verbatim>\<open>header.stamp\<close>) are left out:
  the node writes them from the wall clock and never reads them.
\<close>

record vector3 =
  v_x :: real
  v_y :: real
  v_z :: real

record quaternion =
  q_x :: real
  q_y :: real
  q_z :: real
  q_w :: real

text \<open>\<^verbatim>\<open>geometry_msgs/Transform\<close>\<close>

record transform =
  translation :: vector3
  rotation :: quaternion

text \<open>\<^verbatim>\<open>geometry_msgs/TransformStamped\<close>: \<^verbatim>\<open>header.frame_id\<close>, \<^verbatim>\<open>child_frame_id\<close>,
  \<^verbatim>\<open>transform\<close>.\<close>

record transform_stamped =
  frame_id :: string
  child_frame_id :: string
  transform :: transform

text \<open>\<^verbatim>\<open>geometry_msgs/Pose\<close>\<close>

record pose =
  position :: vector3
  orientation :: quaternion

text \<open>
  The exceptions a run can end with. The first three are the classes of \<^verbatim>\<open>tf2_ros\<close> that
  the node names in its \<^verbatim>\<open>except\<close> clauses; \<open>OtherException\<close> stands for any other class a
  lookup may raise (which those clauses do not catch); \<open>IndexError\<close> is Python's, for
  \<^verbatim>\<open>transforms[0]\<close> on an empty list.
\<close>

datatype exception =
  LookupException | ConnectivityException | ExtrapolationException | OtherException
  | IndexError

section \<open>The environment of the node\<close>

text \<open>
  Everything the node calls outside the repository is a parameter of the model.
  \<^item> \<^verbatim>\<open>euler_from_quaternion\<close> and \<^verbatim>\<open>quaternion_from_euler\<close> are imported from
    \<^verbatim>\<open>tf.transformations\<close>. A quaternion is passed as its four components \<open>x, y, z, w\<close>;
    the Euler angles come back as a triple, of which the node reads the last,
    \<^verbatim>\<open>angles[2]\<close>.
  \<^item> \<open>float_add\<close> and \<open>float_div\<close> are the addition and the division of Python floats
    (\<^verbatim>\<open>+=\<close> and \<^verbatim>\<open>/=\<close> in \<^verbatim>\<open>average_transforms\<close>): the operations of IEEE doubles, which
    round. Exact arithmetic is the instance \<open>float_add = (+)\<close>, \<open>float_div = (/)\<close>.
  \<^item> \<open>head_scan_result k\<close> is the truth value of \<^verbatim>\<open>head_scan_client.get_result()\<close> after the
    \<open>k\<close>-th goal sent to the head scan (counting from 0).
  \<^item> \<open>lookup_transform k target source\<close> is what the \<open>k\<close>-th call of
    \<^verbatim>\<open>tf2_buffer.lookup_transform\<close> does: it returns a message or raises.
  \<^item> \<open>move_base_result k\<close> is the status that \<^verbatim>\<open>move_base_client.send_goal_and_wait\<close>
    returns for the \<open>k\<close>-th navigation goal.
  \<^item> \<open>is_preempt_requested k\<close> is the answer of the \<open>k\<close>-th call of
    \<^verbatim>\<open>server.is_preempt_requested()\<close>.
\<close>

record env =
  euler_from_quaternion :: "quaternion \<Rightarrow> real \<times> real \<times> real"
  quaternion_from_euler :: "real \<Rightarrow> real \<Rightarrow> real \<Rightarrow> quaternion"
  float_add :: "real \<Rightarrow> real \<Rightarrow> real"
  float_div :: "real \<Rightarrow> real \<Rightarrow> real"
  head_scan_result :: "nat \<Rightarrow> bool"
  lookup_transform :: "nat \<Rightarrow> string \<Rightarrow> string \<Rightarrow> exception + transform_stamped"
  move_base_result :: "nat \<Rightarrow> int"
  is_preempt_requested :: "nat \<Rightarrow> bool"

section \<open>Pose averaging\<close>

text \<open>
  \<^verbatim>\<open>average_transforms\<close> binds \<^verbatim>\<open>trans = transforms[0]\<close> and then assigns to the fields of
  \<^verbatim>\<open>trans\<close> (here \<open>tr\<close>): the first message of the list is updated in place. To keep that visible,
  messages live in a store and the list holds references into it.
\<close>

type_synonym ref = nat
type_synonym heap = "ref \<Rightarrow> transform_stamped"

text \<open>The loop \<^verbatim>\<open>for i in range(1, len(transforms))\<close>, over the references
  \<^verbatim>\<open>transforms[1:]\<close>, carrying the local \<^verbatim>\<open>angle\<close> and the store.\<close>

fun average_transforms_loop ::
  "env \<Rightarrow> ref \<Rightarrow> ref list \<Rightarrow> real \<times> heap \<Rightarrow> real \<times> heap" where
  "average_transforms_loop L tr [] (angle, h) = (angle, h)"
| "average_transforms_loop L tr (r # rs) (angle, h) =
     (let h1 = h(tr := (transform_update \<circ> translation_update \<circ> v_x_update)
                   (\<lambda>v. float_add L v (v_x (translation (transform (h r))))) (h tr));
          h2 = h1(tr := (transform_update \<circ> translation_update \<circ> v_y_update)
                   (\<lambda>v. float_add L v (v_y (translation (transform (h1 r))))) (h1 tr));
          angles = euler_from_quaternion L (rotation (transform (h2 r)))
      in average_transforms_loop L tr rs (float_add L angle (snd (snd angles)), h2))"

definition average_transforms ::
  "env \<Rightarrow> ref list \<Rightarrow> heap \<Rightarrow> exception + (ref \<times> heap)" where
  "average_transforms L transforms h =
     (case transforms of
        [] \<Rightarrow> Inl IndexError
      | tr # rest \<Rightarrow>
          (let h1 = h(tr := (transform_update \<circ> translation_update \<circ> v_z_update)
                        (\<lambda>_. 0) (h tr));
               angles = euler_from_quaternion L (rotation (transform (h1 tr)));
               angle = snd (snd angles);
               (angle, h2) = average_transforms_loop L tr rest (angle, h1);
               h3 = h2(tr := (transform_update \<circ> translation_update \<circ> v_x_update)
                        (\<lambda>v. float_div L v (real (length transforms))) (h2 tr));
               h4 = h3(tr := (transform_update \<circ> translation_update \<circ> v_y_update)
                        (\<lambda>v. float_div L v (real (length transforms))) (h3 tr));
               angle = float_div L angle (real (length transforms));
               q = quaternion_from_euler L 0 0 angle;
               h5 = h4(tr := (transform_update \<circ> rotation_update)
                        (\<lambda>rot. rot\<lparr>q_x := q_x q, q_y := q_y q, q_z := q_z q, q_w := q_w q\<rparr>)
                        (h4 tr))
           in Inr (tr, h5)))"

section \<open>Convergence check\<close>

definition calculate_diff ::
  "env \<Rightarrow> transform_stamped \<Rightarrow> transform_stamped \<Rightarrow> real" where
  "calculate_diff L trans1 trans2 =
     (let angle1 = euler_from_quaternion L (rotation (transform trans1));
          angle2 = euler_from_quaternion L (rotation (transform trans2))
      in sqrt ((v_x (translation (transform trans1)) - v_x (translation (transform trans2)))\<^sup>2
             + (v_y (translation (transform trans1)) - v_y (translation (transform trans2)))\<^sup>2
             + (snd (snd angle1) - snd (snd angle2))\<^sup>2))"

section \<open>The action server\<close>

text \<open>
  What the thread that runs \<^verbatim>\<open>execute_callback\<close> does to the outside is recorded as a trace
  of events: its calls on the node's own action server (\<^verbatim>\<open>publish_feedback\<close>,
  \<^verbatim>\<open>set_aborted\<close>, \<^verbatim>\<open>set_succeeded\<close>), on the two action clients, on the transform
  broadcaster, and its log lines. The calls of \<^verbatim>\<open>cancel_goals\<close>, which the action server
  runs in a thread of its own when a cancellation arrives, are no part of this trace: no
  statement below says that they were or were not made during a request.
\<close>

datatype event =
    PublishFeedback string string
  | SetAborted
  | SetSucceeded
  | SetPreempted
  | HeadScanSendGoal string
  | HeadScanCancelAll
  | MoveBaseSendGoal string pose
  | MoveBaseCancelAll
  | SendTransform transform_stamped
  | Sleep
  | LogInfo string
  | Print string

text \<open>The goal \<^verbatim>\<open>NavigateToArucoGoal\<close> (fields \<^verbatim>\<open>name\<close>, \<^verbatim>\<open>pose\<close>) and the feedback
  \<^verbatim>\<open>NavigateToArucoFeedback\<close> (fields \<^verbatim>\<open>state\<close>, \<^verbatim>\<open>alert_type\<close>).\<close>

record navigate_to_aruco_goal =
  goal_name :: string
  goal_pose :: transform

record navigate_to_aruco_feedback =
  fb_state :: string
  alert_type :: string

text \<open>
  The object \<^verbatim>\<open>self\<close> of \<^verbatim>\<open>NavigateToArucoServer\<close>. The fields up to \<open>relative_pose_tf\<close>
  are its attributes; \<open>head_scan_found\<close> is the result the head-scan client holds;
  \<open>trace\<close> is the history of events; \<open>scans\<close>, \<open>lookups\<close>, \<open>navs\<close> and \<open>polls\<close> count
  the calls made so far to the four collaborators of \<open>env\<close>.
\<close>

record server =
  goal :: navigate_to_aruco_goal
  feedback :: navigate_to_aruco_feedback
  num_tries :: int
  max_tries :: int
  preempt :: bool
  aruco_name :: string
  relative_pose :: transform
  marker :: transform_stamped
  map_to_aruco :: transform_stamped
  aruco_tf :: transform_stamped
  relative_pose_tf :: transform_stamped
  head_scan_found :: bool
  trace :: "event list"
  scans :: nat
  lookups :: nat
  navs :: nat
  polls :: nat

text \<open>
  A call ends by returning, by raising, or by running out of call stack (Python's
  \<^verbatim>\<open>RecursionError\<close>, kept apart from the exceptions of the environment); in each case
  the object keeps its updates.
\<close>

datatype outcome = Returned server | Raised exception server | StackExhausted server

fun final :: "outcome \<Rightarrow> server" where
  "final (Returned s) = s"
| "final (Raised e s) = s"
| "final (StackExhausted s) = s"

definition emit :: "event \<Rightarrow> server \<Rightarrow> server" where
  "emit e s = s\<lparr>trace := trace s @ [e]\<rparr>"

text \<open>The three statements \<^verbatim>\<open>self.feedback.state = st\<close>,
  \<^verbatim>\<open>self.feedback.alert_type = al\<close>, \<^verbatim>\<open>self.server.publish_feedback(self.feedback)\<close>.\<close>

definition publish_feedback :: "string \<Rightarrow> string \<Rightarrow> server \<Rightarrow> server" where
  "publish_feedback st al s =
     emit (PublishFeedback st al) (s\<lparr>feedback := \<lparr>fb_state = st, alert_type = al\<rparr>\<rparr>)"

text \<open>\<^verbatim>\<open>head_scan_client.send_goal_and_wait(head_scan_goal)\<close> with
  \<^verbatim>\<open>head_scan_goal.name = self.aruco_name\<close>.\<close>

definition head_scan :: "env \<Rightarrow> server \<Rightarrow> server" where
  "head_scan E s =
     (emit (HeadScanSendGoal (aruco_name s)) s)
       \<lparr>head_scan_found := head_scan_result E (scans s), scans := Suc (scans s)\<rparr>"

text \<open>
  The object after \<^verbatim>\<open>__init__\<close>: \<open>num_tries = 0\<close>, \<open>max_tries = 3\<close>, an empty goal and
  feedback. The attributes that \<^verbatim>\<open>execute_callback\<close> and \<^verbatim>\<open>navigate_to_marker\<close> create
  (\<open>aruco_name\<close> to \<open>relative_pose_tf\<close>) do not exist yet in Python; here they hold zeros,
  and a request writes each of them before it reads it. The attribute \<^verbatim>\<open>result\<close> is never
  used and is left out.
\<close>

definition init :: server where
  "init =
     \<lparr>goal = \<lparr>goal_name = [], goal_pose =
         \<lparr>translation = \<lparr>v_x = 0, v_y = 0, v_z = 0\<rparr>,
          rotation = \<lparr>q_x = 0, q_y = 0, q_z = 0, q_w = 0\<rparr>\<rparr>\<rparr>,
      feedback = \<lparr>fb_state = [], alert_type = []\<rparr>,
      num_tries = 0,
      max_tries = 3,
      preempt = False,
      aruco_name = [],
      relative_pose = \<lparr>translation = \<lparr>v_x = 0, v_y = 0, v_z = 0\<rparr>,
          rotation = \<lparr>q_x = 0, q_y = 0, q_z = 0, q_w = 0\<rparr>\<rparr>,
      marker = \<lparr>frame_id = [], child_frame_id = [], transform =
         \<lparr>translation = \<lparr>v_x = 0, v_y = 0, v_z = 0\<rparr>,
          rotation = \<lparr>q_x = 0, q_y = 0, q_z = 0, q_w = 0\<rparr>\<rparr>\<rparr>,
      map_to_aruco = \<lparr>frame_id = [], child_frame_id = [], transform =
         \<lparr>translation = \<lparr>v_x = 0, v_y = 0, v_z = 0\<rparr>,
          rotation = \<lparr>q_x = 0, q_y = 0, q_z = 0, q_w = 0\<rparr>\<rparr>\<rparr>,
      aruco_tf = \<lparr>frame_id = [], child_frame_id = [], transform =
         \<lparr>translation = \<lparr>v_x = 0, v_y = 0, v_z = 0\<rparr>,
          rotation = \<lparr>q_x = 0, q_y = 0, q_z = 0, q_w = 0\<rparr>\<rparr>\<rparr>,
      relative_pose_tf = \<lparr>frame_id = [], child_frame_id = [], transform =
         \<lparr>translation = \<lparr>v_x = 0, v_y = 0, v_z = 0\<rparr>,
          rotation = \<lparr>q_x = 0, q_y = 0, q_z = 0, q_w = 0\<rparr>\<rparr>\<rparr>,
      head_scan_found = False,
      trace = [],
      scans = 0, lookups = 0, navs = 0, polls = 0\<rparr>"

text \<open>
  \<^verbatim>\<open>cancel_goals\<close> is registered with \<^verbatim>\<open>register_preempt_callback\<close>: the action server
  calls it, from a thread of its own, when a cancellation arrives, and from then on
  \<^verbatim>\<open>is_preempt_requested\<close> answers true. The functions below never call it; its effect is
  given for one call, on its own. \<^verbatim>\<open>preempt_callback\<close> is what the functions below call when
  a poll of \<^verbatim>\<open>is_preempt_requested\<close> answers true.
\<close>

definition cancel_goals :: "server \<Rightarrow> server" where
  "cancel_goals s =
     emit SetPreempted (emit MoveBaseCancelAll (emit HeadScanCancelAll
       (emit (Print ''cancel goals'') s)))"

definition preempt_callback :: "server \<Rightarrow> server" where
  "preempt_callback s =
     publish_feedback ''Aruco navigation cancelled!'' ''error''
       (emit (Print ''preempt callback'') s)"

definition broadcast_tf :: "transform \<Rightarrow> string \<Rightarrow> string \<Rightarrow> transform_stamped" where
  "broadcast_tf tr name ref = \<lparr>frame_id = ref, child_frame_id = name, transform = tr\<rparr>"

text \<open>The \<^verbatim>\<open>except\<close> clauses of the node catch exactly these three classes.\<close>

definition caught :: "exception \<Rightarrow> bool" where
  "caught e = (e = LookupException \<or> e = ConnectivityException \<or> e = ExtrapolationException)"

text \<open>The handler both \<^verbatim>\<open>except\<close> clauses share.\<close>

definition lookup_failed :: "server \<Rightarrow> server" where
  "lookup_failed s =
     emit SetAborted (publish_feedback ''Navigation failed, please try again.'' ''error''
       (emit (LogInfo ''Could not publish pose to tf'') s))"

section \<open>The approach controller\<close>

text \<open>
  The loop \<^verbatim>\<open>while len(transforms) < 10\<close> of \<^verbatim>\<open>navigate_to_marker\<close>. It ends with the
  samples, or it ends the whole call: by the \<^verbatim>\<open>return\<close> of the \<^verbatim>\<open>except\<close> clause, or by
  an exception the clause does not catch.
\<close>

datatype sampling = Sampled "transform_stamped list" server | Stopped outcome

function navigate_to_marker_loop ::
  "env \<Rightarrow> transform_stamped list \<Rightarrow> server \<Rightarrow> sampling" where
  "navigate_to_marker_loop E transforms s =
     (if length transforms < 10 then
        (case lookup_transform E (lookups s) ''map'' ''relative_pose'' of
           Inr tr \<Rightarrow>
             navigate_to_marker_loop E (transforms @ [tr]) (s\<lparr>lookups := Suc (lookups s)\<rparr>)
         | Inl e \<Rightarrow>
             (if caught e then
                Stopped (Returned (lookup_failed (s\<lparr>lookups := Suc (lookups s)\<rparr>)))
              else Stopped (Raised e (s\<lparr>lookups := Suc (lookups s)\<rparr>))))
      else Sampled transforms s)"
  by pat_completeness auto
termination
  by (relation "measure (\<lambda>(E, transforms, s). 10 - length transforms)") auto

text \<open>
  \<^verbatim>\<open>navigate_to_marker\<close> and \<^verbatim>\<open>move_base_aruco_callback\<close> call each other. The first
  argument is the depth of call stack left: each call uses one frame, and a call with none
  left ends in \<open>StackExhausted\<close>.

  The ten samples are fresh messages: they are put in a store of their own, at the
  references \<open>0, \<dots>, 9\<close>, for \<open>average_transforms\<close>.
\<close>

fun navigate_to_marker :: "nat \<Rightarrow> env \<Rightarrow> server \<Rightarrow> outcome"
  and move_base_aruco_callback :: "nat \<Rightarrow> env \<Rightarrow> int \<Rightarrow> server \<Rightarrow> outcome" where
  "navigate_to_marker 0 E s = StackExhausted s"
| "navigate_to_marker (Suc n) E s =
     (if is_preempt_requested E (polls s) then
        Returned (preempt_callback (s\<lparr>polls := Suc (polls s)\<rparr>))
      else
        (let s1 = s\<lparr>polls := Suc (polls s), num_tries := num_tries s + 1\<rparr>;
             tran = broadcast_tf (relative_pose s1) ''relative_pose'' (aruco_name s1);
             s2 = emit (SendTransform tran) s1;
             s3 = publish_feedback ''Navigating to marker...'' ''info'' s2
         in case navigate_to_marker_loop E [] s3 of
              Stopped out \<Rightarrow> out
            | Sampled transforms s4 \<Rightarrow>
                (case average_transforms E [0..<length transforms] (\<lambda>r. transforms ! r) of
                   Inl e \<Rightarrow> Raised e s4
                 | Inr (r, h) \<Rightarrow>
                     (let s5 = emit (LogInfo ''Published relative pose'')
                                 (s4\<lparr>relative_pose_tf := h r\<rparr>);
                          goal_pose =
                            \<lparr>position =
                               \<lparr>v_x = v_x (translation (transform (relative_pose_tf s5))),
                                v_y = v_y (translation (transform (relative_pose_tf s5))),
                                v_z = v_z (translation (transform (relative_pose_tf s5)))\<rparr>,
                             orientation =
                               \<lparr>q_x = q_x (rotation (transform (relative_pose_tf s5))),
                                q_y = q_y (rotation (transform (relative_pose_tf s5))),
                                q_z = q_z (rotation (transform (relative_pose_tf s5))),
                                q_w = q_w (rotation (transform (relative_pose_tf s5)))\<rparr>\<rparr>;
                          result = move_base_result E (navs s5);
                          s6 = (emit (MoveBaseSendGoal ''map'' goal_pose) s5)
                                 \<lparr>navs := Suc (navs s5)\<rparr>
                      in move_base_aruco_callback n E result s6))))"
| "move_base_aruco_callback 0 E result s = StackExhausted s"
| "move_base_aruco_callback (Suc n) E result s =
     (if is_preempt_requested E (polls s) then
        Returned (preempt_callback (s\<lparr>polls := Suc (polls s)\<rparr>))
      else
        (let s1 = s\<lparr>polls := Suc (polls s)\<rparr>
         in if num_tries s1 = max_tries s1 then
              Returned (emit SetAborted
                (publish_feedback ''Navigation failed, please try again.'' ''error''
                  (s1\<lparr>num_tries := 0\<rparr>)))
            else
              (let s2 = head_scan E (emit Sleep s1)
               in if \<not> head_scan_found s2 then
                    Returned (emit SetAborted
                      (publish_feedback
                        ''Could not find Aruco Marker. Stretch may be too far away, try moving it closer to the marker.''
                        ''error'' s2))
                  else
                    (case lookup_transform E (lookups s2) ''map'' (aruco_name s2) of
                       Inl e \<Rightarrow>
                         (if caught e then
                            Returned (lookup_failed (s2\<lparr>lookups := Suc (lookups s2)\<rparr>))
                          else Raised e (s2\<lparr>lookups := Suc (lookups s2)\<rparr>))
                     | Inr new_map_to_aruco \<Rightarrow>
                         (let s3 = s2\<lparr>lookups := Suc (lookups s2)\<rparr>;
                              diff = calculate_diff E (map_to_aruco s3) new_map_to_aruco
                          in case (if diff > 0.075 then
                                     navigate_to_marker n E
                                       (s3\<lparr>map_to_aruco := new_map_to_aruco\<rparr>)
                                   else Returned s3) of
                               Raised e s4 \<Rightarrow> Raised e s4
                             | StackExhausted s4 \<Rightarrow> StackExhausted s4
                             | Returned s4 \<Rightarrow>
                                 Returned (emit SetSucceeded
                                   (publish_feedback ''Navigation succeeded!'' ''success''
                                     s4)))))))"

definition execute_callback ::
  "nat \<Rightarrow> env \<Rightarrow> navigate_to_aruco_goal \<Rightarrow> server \<Rightarrow> outcome" where
  "execute_callback n E g s =
     (let s1 = s\<lparr>num_tries := 0, goal := g, aruco_name := goal_name g,
                  relative_pose := goal_pose g\<rparr>;
          s2 = head_scan E (publish_feedback ''Scanning for marker...'' ''info'' s1)
      in if is_preempt_requested E (polls s2) then
           Returned (preempt_callback (s2\<lparr>polls := Suc (polls s2)\<rparr>))
         else
           (let s3 = s2\<lparr>polls := Suc (polls s2)\<rparr>
            in if \<not> head_scan_found s3 then
                 Returned (emit SetAborted
                   (publish_feedback
                     ''Could not find Aruco Marker. Stretch may be too far away, try moving it closer to the marker.''
                     ''error'' s3))
               else
                 (case lookup_transform E (lookups s3) ''base_link'' (aruco_name s3) of
                    Inl e \<Rightarrow> Raised e (s3\<lparr>lookups := Suc (lookups s3)\<rparr>)
                  | Inr m \<Rightarrow>
                      (let s4 = s3\<lparr>lookups := Suc (lookups s3), marker := m\<rparr>
                       in case lookup_transform E (lookups s4) ''map'' (aruco_name s4) of
                            Inl e \<Rightarrow> Raised e (s4\<lparr>lookups := Suc (lookups s4)\<rparr>)
                          | Inr m2 \<Rightarrow>
                              (let s5 = s4\<lparr>lookups := Suc (lookups s4), map_to_aruco := m2\<rparr>;
                                   s6 = s5\<lparr>aruco_tf := broadcast_tf (transform (map_to_aruco s5))
                                                       (aruco_name s5) ''map''\<rparr>;
                                   s7 = emit (LogInfo (aruco_name s6 @ '' pose published to tf'')) s6
                               in navigate_to_marker n E s7)))))"

section \<open>Notions for the statements\<close>

text \<open>
  The definitions of this section are not part of the node: they name intermediate states
  of its functions and read off its trace, for the lemmas below.
\<close>

text \<open>The yaw the node extracts from a message: \<^verbatim>\<open>euler_from_quaternion([...])[2]\<close>.\<close>

definition yaw :: "env \<Rightarrow> transform_stamped \<Rightarrow> real" where
  "yaw E t = snd (snd (euler_from_quaternion E (rotation (transform t))))"

abbreviation msg_failed :: string where
  "msg_failed \<equiv> ''Navigation failed, please try again.''"

abbreviation msg_not_found :: string where
  "msg_not_found \<equiv> ''Could not find Aruco Marker. Stretch may be too far away, try moving it closer to the marker.''"

abbreviation msg_succeeded :: string where
  "msg_succeeded \<equiv> ''Navigation succeeded!''"

abbreviation msg_cancelled :: string where
  "msg_cancelled \<equiv> ''Aruco navigation cancelled!''"

text \<open>The state of \<^verbatim>\<open>navigate_to_marker\<close> when it enters its sampling loop.\<close>

definition begin_cycle :: "server \<Rightarrow> server" where
  "begin_cycle s =
     publish_feedback ''Navigating to marker...'' ''info''
       (emit (SendTransform (broadcast_tf (relative_pose s) ''relative_pose'' (aruco_name s)))
          (s\<lparr>polls := Suc (polls s), num_tries := num_tries s + 1\<rparr>))"

text \<open>The \<^verbatim>\<open>goal_pose\<close> that \<^verbatim>\<open>navigate_to_marker\<close> builds from \<^verbatim>\<open>relative_pose_tf\<close>.\<close>

definition pose_of :: "transform_stamped \<Rightarrow> pose" where
  "pose_of t =
     \<lparr>position = \<lparr>v_x = v_x (translation (transform t)), v_y = v_y (translation (transform t)),
                  v_z = v_z (translation (transform t))\<rparr>,
      orientation = \<lparr>q_x = q_x (rotation (transform t)), q_y = q_y (rotation (transform t)),
                     q_z = q_z (rotation (transform t)), q_w = q_w (rotation (transform t))\<rparr>\<rparr>"

text \<open>The state of \<^verbatim>\<open>navigate_to_marker\<close> when \<^verbatim>\<open>send_goal_and_wait\<close> has returned, for
  the averaged message \<open>t\<close>.\<close>

definition send_goal :: "transform_stamped \<Rightarrow> server \<Rightarrow> server" where
  "send_goal t s =
     (emit (MoveBaseSendGoal ''map'' (pose_of t))
        (emit (LogInfo ''Published relative pose'') (s\<lparr>relative_pose_tf := t\<rparr>)))
       \<lparr>navs := Suc (navs s)\<rparr>"

text \<open>The state of \<^verbatim>\<open>move_base_aruco_callback\<close> when its head scan has returned.\<close>

definition rescan :: "env \<Rightarrow> server \<Rightarrow> server" where
  "rescan E s = head_scan E (emit Sleep (s\<lparr>polls := Suc (polls s)\<rparr>))"

text \<open>The last four lines of \<^verbatim>\<open>move_base_aruco_callback\<close>, which follow both the branch
  \<^verbatim>\<open>diff > 0.075\<close> (after the nested call) and its absence.\<close>

definition report_success :: "outcome \<Rightarrow> outcome" where
  "report_success out =
     (case out of
        Returned s \<Rightarrow> Returned (emit SetSucceeded (publish_feedback msg_succeeded ''success'' s))
      | Raised e s \<Rightarrow> Raised e s
      | StackExhausted s \<Rightarrow> StackExhausted s)"

text \<open>The state of \<^verbatim>\<open>execute_callback\<close> when it has polled for cancellation after its
  head scan, and its state when it calls \<^verbatim>\<open>navigate_to_marker\<close>, for the two messages
  \<open>m\<close> and \<open>m2\<close> that the lookups returned.\<close>

definition scanned :: "env \<Rightarrow> navigate_to_aruco_goal \<Rightarrow> server \<Rightarrow> server" where
  "scanned E g s =
     (head_scan E (publish_feedback ''Scanning for marker...'' ''info''
        (s\<lparr>num_tries := 0, goal := g, aruco_name := goal_name g, relative_pose := goal_pose g\<rparr>)))
       \<lparr>polls := Suc (polls s)\<rparr>"

definition started ::
  "env \<Rightarrow> navigate_to_aruco_goal \<Rightarrow> transform_stamped \<Rightarrow> transform_stamped \<Rightarrow> server \<Rightarrow> server" where
  "started E g m m2 s =
     emit (LogInfo (goal_name g @ '' pose published to tf''))
       ((scanned E g s)\<lparr>lookups := Suc (Suc (lookups s)), marker := m, map_to_aruco := m2,
          aruco_tf := broadcast_tf (transform m2) (goal_name g) ''map''\<rparr>)"

fun is_exhausted :: "outcome \<Rightarrow> bool" where
  "is_exhausted (StackExhausted s) = True"
| "is_exhausted _ = False"

text \<open>Reading a trace: the calls that set a terminal state of the goal, the navigation
  goals sent, the head scans sent, and the broadcasts of the target frame (one at the
  start of each navigation cycle).\<close>

fun is_terminal :: "event \<Rightarrow> bool" where
  "is_terminal SetAborted = True"
| "is_terminal SetSucceeded = True"
| "is_terminal SetPreempted = True"
| "is_terminal _ = False"

fun is_move_base_goal :: "event \<Rightarrow> bool" where
  "is_move_base_goal (MoveBaseSendGoal f p) = True"
| "is_move_base_goal _ = False"

fun is_head_scan_goal :: "event \<Rightarrow> bool" where
  "is_head_scan_goal (HeadScanSendGoal n) = True"
| "is_head_scan_goal _ = False"

fun is_send_transform :: "event \<Rightarrow> bool" where
  "is_send_transform (SendTransform t) = True"
| "is_send_transform _ = False"

fun is_feedback :: "event \<Rightarrow> bool" where
  "is_feedback (PublishFeedback st al) = True"
| "is_feedback _ = False"

text \<open>The calls on the node's own action server: feedback and terminal states.\<close>

definition server_calls :: "event list \<Rightarrow> event list" where
  "server_calls evs = filter (\<lambda>e. is_feedback e \<or> is_terminal e) evs"

definition attempts :: "event list \<Rightarrow> nat" where
  "attempts evs = length (filter is_move_base_goal evs)"

definition cycles :: "event list \<Rightarrow> nat" where
  "cycles evs = length (filter is_send_transform evs)"

definition head_scans :: "event list \<Rightarrow> nat" where
  "head_scans evs = length (filter is_head_scan_goal evs)"

abbreviation fb_navigating :: event where
  "fb_navigating \<equiv> PublishFeedback ''Navigating to marker...'' ''info''"

abbreviation fb_failed :: event where
  "fb_failed \<equiv> PublishFeedback msg_failed ''error''"

abbreviation fb_succeeded :: event where
  "fb_succeeded \<equiv> PublishFeedback msg_succeeded ''success''"

text \<open>
  The invariant of the attempt counter, for a call entered in state \<open>s\<close> that ends with
  \<open>out\<close>: the call stack sufficed, the counter ends between 0 and \<open>max_tries = 3\<close>, and the
  call started \<open>j\<close> navigation cycles, at most as many as the counter left room for, each
  adding one to the counter unless the counter was reset.
\<close>

definition bounded :: "server \<Rightarrow> outcome \<Rightarrow> bool" where
  "bounded s out =
     (\<not> is_exhausted out \<and> max_tries (final out) = 3 \<and>
      0 \<le> num_tries (final out) \<and> num_tries (final out) \<le> 3 \<and>
      (\<exists>j. cycles (trace (final out)) = cycles (trace s) + j \<and> int j \<le> 3 - num_tries s \<and>
           (num_tries (final out) = num_tries s + int j \<or> num_tries (final out) = 0)))"

text \<open>
  An environment in which the marker's pose does not settle during a request that starts
  when \<open>l\<close> lookups have been made: no poll sees a cancellation, every scan finds the
  marker, every lookup returns (the \<open>k\<close>-th one \<open>w k target source\<close>), and both differences
  that the request computes exceed the threshold. The request resolves the marker's world
  pose at the lookups \<open>l + 1\<close> (in \<^verbatim>\<open>execute_callback\<close>), \<open>l + 12\<close> and \<open>l + 23\<close> (after the
  10 samples of the first and of the second cycle), and compares each with the one before.
\<close>

definition cooperative ::
  "env \<Rightarrow> (nat \<Rightarrow> string \<Rightarrow> string \<Rightarrow> transform_stamped) \<Rightarrow> bool" where
  "cooperative E w =
     ((\<forall>k. \<not> is_preempt_requested E k) \<and> (\<forall>k. head_scan_result E k) \<and>
      (\<forall>k a b. lookup_transform E k a b = Inr (w k a b)))"

definition never_converges ::
  "env \<Rightarrow> (nat \<Rightarrow> string \<Rightarrow> string \<Rightarrow> transform_stamped) \<Rightarrow> string \<Rightarrow> nat \<Rightarrow> bool" where
  "never_converges E w nm l =
     (cooperative E w \<and>
      calculate_diff E (w (l + 1) ''map'' nm) (w (l + 12) ''map'' nm) > 0.075 \<and>
      calculate_diff E (w (l + 12) ''map'' nm) (w (l + 23) ''map'' nm) > 0.075)"

text \<open>The reference pose \<^verbatim>\<open>map_to_aruco\<close> is the result of lookup \<open>i\<close>, and \<open>L\<close> lookups
  have been made.\<close>

definition tracking ::
  "(nat \<Rightarrow> string \<Rightarrow> string \<Rightarrow> transform_stamped) \<Rightarrow> string \<Rightarrow> nat \<Rightarrow> nat \<Rightarrow> server \<Rightarrow> bool" where
  "tracking w nm i L s =
     (max_tries s = 3 \<and> aruco_name s = nm \<and> map_to_aruco s = w i ''map'' nm \<and> lookups s = L)"

text \<open>A call entered in state \<open>s\<close> returns with the counter at 0, having made the server
  calls \<open>fb\<close>, sent \<open>a\<close> navigation goals and \<open>hs\<close> head scans.\<close>

definition run_ends :: "server \<Rightarrow> outcome \<Rightarrow> event list \<Rightarrow> nat \<Rightarrow> nat \<Rightarrow> bool" where
  "run_ends s out fb a hs =
     (\<exists>s' evs. out = Returned s' \<and> num_tries s' = 0 \<and> trace s' = trace s @ evs \<and>
        server_calls evs = fb \<and> attempts evs = a \<and> head_scans evs = hs)"

text \<open>
  Concrete inputs for the examples. In \<open>test_env\<close> the yaw of a quaternion is stored in its
  \<open>z\<close> component (a stand-in for the library), arithmetic is exact, every scan finds the
  marker, the \<open>k\<close>-th lookup returns a pose at \<open>x = k\<close>, and no poll sees a cancellation.
\<close>

definition test_pose :: "nat \<Rightarrow> string \<Rightarrow> string \<Rightarrow> transform_stamped" where
  "test_pose k target source =
     \<lparr>frame_id = target, child_frame_id = source,
      transform = \<lparr>translation = \<lparr>v_x = real k, v_y = 0, v_z = 1\<rparr>,
                   rotation = \<lparr>q_x = 0, q_y = 0, q_z = 0, q_w = 1\<rparr>\<rparr>\<rparr>"

definition test_env :: env where
  "test_env =
     \<lparr>euler_from_quaternion = (\<lambda>q. (0, 0, q_z q)),
      quaternion_from_euler = (\<lambda>roll pitch yaw. \<lparr>q_x = roll, q_y = pitch, q_z = yaw, q_w = 1\<rparr>),
      float_add = (+),
      float_div = (/),
      head_scan_result = (\<lambda>k. True),
      lookup_transform = (\<lambda>k target source. Inr (test_pose k target source)),
      move_base_result = (\<lambda>k. 4),
      is_preempt_requested = (\<lambda>k. False)\<rparr>"

definition sample :: "real \<Rightarrow> real \<Rightarrow> real \<Rightarrow> transform_stamped" where
  "sample a b c =
     \<lparr>frame_id = ''map'', child_frame_id = ''relative_pose'',
      transform = \<lparr>translation = \<lparr>v_x = a, v_y = b, v_z = 1\<rparr>,
                   rotation = \<lparr>q_x = 0, q_y = 0, q_z = c, q_w = 1\<rparr>\<rparr>\<rparr>"

definition test_goal :: navigate_to_aruco_goal where
  "test_goal =
     \<lparr>goal_name = ''dock'',
      goal_pose = \<lparr>translation = \<lparr>v_x = 0, v_y = 0, v_z = 0\<rparr>,
                   rotation = \<lparr>q_x = 0, q_y = 0, q_z = 0, q_w = 1\<rparr>\<rparr>\<rparr>"

text \<open>
  Variants of \<open>test_env\<close>: lookups succeed up to the \<open>k\<close>-th and raise \<open>e\<close> from then on;
  the marker's pose never changes; the marker's pose alternates between two places; the
  marker's pose never changes and a cancellation is requested after the third poll of a
  request (the polls after the initial scan, at the start of the cycle and after the navigation
  see none; a fourth poll would see it).
\<close>

definition failing_env :: "nat \<Rightarrow> exception \<Rightarrow> env" where
  "failing_env k e =
     test_env\<lparr>lookup_transform := \<lambda>i target source.
        if i < k then Inr (test_pose i target source) else Inl e\<rparr>"

definition steady_env :: env where
  "steady_env = test_env\<lparr>lookup_transform := \<lambda>k target source. Inr (test_pose 0 target source)\<rparr>"

definition swinging_env :: env where
  "swinging_env =
     test_env\<lparr>lookup_transform := \<lambda>k target source. Inr (test_pose (k mod 2) target source)\<rparr>"

definition late_cancel_env :: env where
  "late_cancel_env = steady_env\<lparr>is_preempt_requested := \<lambda>k. 3 \<le> k\<rparr>"

section \<open>Lemmas about the functions\<close>

lemma average_transforms_loop_others:
  "average_transforms_loop E tr rs (a, h) = (a', h') \<Longrightarrow> r \<noteq> tr \<Longrightarrow> h' r = h r"
  by (induction rs arbitrary: a h) (auto simp: Let_def)

lemma average_transforms_loop_z:
  "average_transforms_loop E tr rs (a, h) = (a', h') \<Longrightarrow>
     v_z (translation (transform (h' tr))) = v_z (translation (transform (h tr)))"
  by (induction rs arbitrary: a h) (auto simp: Let_def)

lemma average_transforms_frame:
  assumes "transforms \<noteq> []"
  shows "\<exists>h'. average_transforms E transforms h = Inr (hd transforms, h')
           \<and> (\<forall>r. r \<noteq> hd transforms \<longrightarrow> h' r = h r)
           \<and> v_z (translation (transform (h' (hd transforms)))) = 0"
proof -
  obtain tr rest where ts: "transforms = tr # rest"
    using assms by (cases transforms) auto
  let ?h1 = "h(tr := (transform_update \<circ> translation_update \<circ> v_z_update) (\<lambda>_. 0) (h tr))"
  let ?a = "snd (snd (euler_from_quaternion E (rotation (transform (?h1 tr)))))"
  obtain a2 h2 where loop: "average_transforms_loop E tr rest (?a, ?h1) = (a2, h2)"
    by (cases "average_transforms_loop E tr rest (?a, ?h1)") auto
  have others: "\<And>r. r \<noteq> tr \<Longrightarrow> h2 r = h r"
    using average_transforms_loop_others[OF loop] by simp
  have z: "v_z (translation (transform (h2 tr))) = 0"
    using average_transforms_loop_z[OF loop] by simp
  show ?thesis
    using loop others z unfolding ts average_transforms_def
    by (simp add: Let_def)
qed






declare navigate_to_marker_loop.simps [simp del]

lemma loop_ok:
  "\<forall>i<10 - length ts. lookup_transform E (lookups s + i) ''map'' ''relative_pose'' = Inr (w (lookups s + i)) \<Longrightarrow>
   navigate_to_marker_loop E ts s =
     Sampled (ts @ map w [lookups s..<lookups s + (10 - length ts)])
             (s\<lparr>lookups := lookups s + (10 - length ts)\<rparr>)"
proof (induction E ts s rule: navigate_to_marker_loop.induct)
  case (1 E transforms s)
  show ?case
  proof (cases "length transforms < 10")
    case False
    then show ?thesis by (simp add: navigate_to_marker_loop.simps[of E transforms s])
  next
    case True
    from "1.prems" True have l0: "lookup_transform E (lookups s) ''map'' ''relative_pose'' = Inr (w (lookups s))"
      by (metis add.right_neutral zero_less_diff)
    have rest: "\<forall>i<10 - length (transforms @ [w (lookups s)]).
        lookup_transform E (lookups (s\<lparr>lookups := Suc (lookups s)\<rparr>) + i) ''map'' ''relative_pose'' =
          Inr (w (lookups (s\<lparr>lookups := Suc (lookups s)\<rparr>) + i))"
    proof (intro allI impI)
      fix i assume "i < 10 - length (transforms @ [w (lookups s)])"
      then have "Suc i < 10 - length transforms" by simp
      with "1.prems" have "lookup_transform E (lookups s + Suc i) ''map'' ''relative_pose'' = Inr (w (lookups s + Suc i))"
        by blast
      then show "lookup_transform E (lookups (s\<lparr>lookups := Suc (lookups s)\<rparr>) + i) ''map'' ''relative_pose'' =
          Inr (w (lookups (s\<lparr>lookups := Suc (lookups s)\<rparr>) + i))" by simp
    qed
    have en: "Suc (lookups s) + (10 - Suc (length transforms)) = lookups s + (10 - length transforms)"
      using True by arith
    have upt: "[lookups s..<lookups s + (10 - length transforms)] =
        lookups s # [Suc (lookups s)..<lookups s + (10 - length transforms)]"
      using True by (simp only: upt_conv_Cons less_add_same_cancel1 zero_less_diff)
    have "navigate_to_marker_loop E transforms s =
        navigate_to_marker_loop E (transforms @ [w (lookups s)]) (s\<lparr>lookups := Suc (lookups s)\<rparr>)"
      using True l0 by (simp add: navigate_to_marker_loop.simps[of E transforms s])
    also have "\<dots> = Sampled ((transforms @ [w (lookups s)]) @
          map w [Suc (lookups s)..<Suc (lookups s) + (10 - Suc (length transforms))])
        (s\<lparr>lookups := Suc (lookups s) + (10 - Suc (length transforms))\<rparr>)"
      using "1.IH"[OF True l0 rest] by simp
    finally show ?thesis
      unfolding en upt by (simp only: append_assoc append.simps list.map)
  qed
qed

lemma loop_fail:
  "k < 10 - length ts \<Longrightarrow>
   \<forall>i<k. lookup_transform E (lookups s + i) ''map'' ''relative_pose'' = Inr (w (lookups s + i)) \<Longrightarrow>
   lookup_transform E (lookups s + k) ''map'' ''relative_pose'' = Inl e \<Longrightarrow>
   navigate_to_marker_loop E ts s =
     Stopped (if caught e then Returned (lookup_failed (s\<lparr>lookups := Suc (lookups s + k)\<rparr>))
              else Raised e (s\<lparr>lookups := Suc (lookups s + k)\<rparr>))"
proof (induction k arbitrary: ts s)
  case 0
  then show ?case by (simp add: navigate_to_marker_loop.simps[of E ts s])
next
  case (Suc k)
  from Suc.prems have lt: "length ts < 10" and k: "k < 10 - length (ts @ [w (lookups s)])" by auto
  from Suc.prems(2) have l0: "lookup_transform E (lookups s) ''map'' ''relative_pose'' = Inr (w (lookups s))"
    by (metis add.right_neutral zero_less_Suc)
  have rest: "\<forall>i<k. lookup_transform E (lookups (s\<lparr>lookups := Suc (lookups s)\<rparr>) + i) ''map'' ''relative_pose'' =
          Inr (w (lookups (s\<lparr>lookups := Suc (lookups s)\<rparr>) + i))"
    using Suc.prems(2) by (auto dest: spec[where x="Suc _"])
  have last: "lookup_transform E (lookups (s\<lparr>lookups := Suc (lookups s)\<rparr>) + k) ''map'' ''relative_pose'' = Inl e"
    using Suc.prems(3) by simp
  have "navigate_to_marker_loop E ts s =
        navigate_to_marker_loop E (ts @ [w (lookups s)]) (s\<lparr>lookups := Suc (lookups s)\<rparr>)"
    using lt l0 by (simp add: navigate_to_marker_loop.simps[of E ts s])
  then show ?case using Suc.IH[OF k rest last] by simp
qed

lemma upt_10_ne: "[0..<10] \<noteq> []"
  by simp

lemma navigate_preempt:
  "is_preempt_requested E (polls s) \<Longrightarrow>
   navigate_to_marker (Suc n) E s = Returned (preempt_callback (s\<lparr>polls := Suc (polls s)\<rparr>))"
  by simp

lemma navigate_unfold:
  "\<not> is_preempt_requested E (polls s) \<Longrightarrow>
   navigate_to_marker (Suc n) E s =
     (case navigate_to_marker_loop E [] (begin_cycle s) of
        Stopped out \<Rightarrow> out
      | Sampled transforms s4 \<Rightarrow>
          (case average_transforms E [0..<length transforms] (\<lambda>r. transforms ! r) of
             Inl e \<Rightarrow> Raised e s4
           | Inr (r, h) \<Rightarrow>
               move_base_aruco_callback n E (move_base_result E (navs s4)) (send_goal (h r) s4)))"
  by (simp add: Let_def begin_cycle_def send_goal_def pose_of_def emit_def publish_feedback_def
        split: sampling.splits sum.splits prod.splits)

lemma navigate_no_stack: "navigate_to_marker 0 E s = StackExhausted s"
  by simp

lemma callback_no_stack: "move_base_aruco_callback 0 E r s = StackExhausted s"
  by simp

lemma callback_preempt:
  "is_preempt_requested E (polls s) \<Longrightarrow>
   move_base_aruco_callback (Suc n) E r s = Returned (preempt_callback (s\<lparr>polls := Suc (polls s)\<rparr>))"
  by simp

lemma callback_exhausted:
  "\<not> is_preempt_requested E (polls s) \<Longrightarrow> num_tries s = max_tries s \<Longrightarrow>
   move_base_aruco_callback (Suc n) E r s =
     Returned (emit SetAborted (publish_feedback msg_failed ''error''
       (s\<lparr>polls := Suc (polls s), num_tries := 0\<rparr>)))"
  by simp

lemma callback_unfold:
  "\<not> is_preempt_requested E (polls s) \<Longrightarrow> num_tries s \<noteq> max_tries s \<Longrightarrow>
   move_base_aruco_callback (Suc n) E r s =
     (if \<not> head_scan_result E (scans s) then
        Returned (emit SetAborted (publish_feedback msg_not_found ''error'' (rescan E s)))
      else
        (case lookup_transform E (lookups s) ''map'' (aruco_name s) of
           Inl e \<Rightarrow>
             (if caught e then Returned (lookup_failed ((rescan E s)\<lparr>lookups := Suc (lookups s)\<rparr>))
              else Raised e ((rescan E s)\<lparr>lookups := Suc (lookups s)\<rparr>))
         | Inr m \<Rightarrow>
             (if calculate_diff E (map_to_aruco s) m > 0.075 then
                report_success (navigate_to_marker n E
                  ((rescan E s)\<lparr>lookups := Suc (lookups s), map_to_aruco := m\<rparr>))
              else report_success (Returned ((rescan E s)\<lparr>lookups := Suc (lookups s)\<rparr>)))))"
  by (simp add: Let_def rescan_def head_scan_def emit_def report_success_def
        split: sum.splits outcome.splits)

declare navigate_to_marker.simps [simp del]

declare move_base_aruco_callback.simps [simp del]

lemma begin_cycle_fields [simp]:
  "lookups (begin_cycle s) = lookups s" "navs (begin_cycle s) = navs s"
  "num_tries (begin_cycle s) = num_tries s + 1" "max_tries (begin_cycle s) = max_tries s"
  "aruco_name (begin_cycle s) = aruco_name s" "map_to_aruco (begin_cycle s) = map_to_aruco s"
  "polls (begin_cycle s) = Suc (polls s)" "scans (begin_cycle s) = scans s"
  "relative_pose (begin_cycle s) = relative_pose s"
  "trace (begin_cycle s) = trace s @
     [SendTransform (broadcast_tf (relative_pose s) ''relative_pose'' (aruco_name s)),
      PublishFeedback ''Navigating to marker...'' ''info'']"
  by (simp_all add: begin_cycle_def publish_feedback_def emit_def)

lemma navigate_sampled:
  assumes "\<not> is_preempt_requested E (polls s)"
    and "\<forall>i<10. lookup_transform E (lookups s + i) ''map'' ''relative_pose'' = Inr (w (lookups s + i))"
  shows "\<exists>h. average_transforms E [0..<10] (\<lambda>r. map w [lookups s..<lookups s + 10] ! r) = Inr (0, h) \<and>
     navigate_to_marker (Suc n) E s =
       move_base_aruco_callback n E (move_base_result E (navs s))
         (send_goal (h 0) ((begin_cycle s)\<lparr>lookups := lookups s + 10\<rparr>))"
proof -
  have loop: "navigate_to_marker_loop E [] (begin_cycle s) =
      Sampled (map w [lookups s..<lookups s + 10]) ((begin_cycle s)\<lparr>lookups := lookups s + 10\<rparr>)"
    using loop_ok[of "[]" E "begin_cycle s" w] assms(2) by simp
  obtain h where avg: "average_transforms E [0..<10] (\<lambda>r. map w [lookups s..<lookups s + 10] ! r) = Inr (0, h)"
    using average_transforms_frame[OF upt_10_ne, of E "\<lambda>r. map w [lookups s..<lookups s + 10] ! r"]
    by (auto simp: upt_conv_Cons)
  show ?thesis
    using avg by (simp add: navigate_unfold[OF assms(1)] loop)
qed

lemma navigate_sampling_failed:
  assumes "\<not> is_preempt_requested E (polls s)" "k < 10"
    and "\<forall>i<k. lookup_transform E (lookups s + i) ''map'' ''relative_pose'' = Inr (w (lookups s + i))"
    and "lookup_transform E (lookups s + k) ''map'' ''relative_pose'' = Inl e"
  shows "navigate_to_marker (Suc n) E s =
     (if caught e then Returned (lookup_failed ((begin_cycle s)\<lparr>lookups := Suc (lookups s + k)\<rparr>))
      else Raised e ((begin_cycle s)\<lparr>lookups := Suc (lookups s + k)\<rparr>))"
  using loop_fail[of k "[]" E "begin_cycle s" w e] assms
  by (simp add: navigate_unfold[OF assms(1)])

lemma rescan_fields [simp]:
  "lookups (rescan E s) = lookups s" "navs (rescan E s) = navs s"
  "num_tries (rescan E s) = num_tries s" "max_tries (rescan E s) = max_tries s"
  "aruco_name (rescan E s) = aruco_name s" "map_to_aruco (rescan E s) = map_to_aruco s"
  "polls (rescan E s) = Suc (polls s)" "scans (rescan E s) = Suc (scans s)"
  "relative_pose (rescan E s) = relative_pose s"
  "trace (rescan E s) = trace s @ [Sleep, HeadScanSendGoal (aruco_name s)]"
  by (simp_all add: rescan_def head_scan_def emit_def)

lemma send_goal_fields [simp]:
  "lookups (send_goal t s) = lookups s" "navs (send_goal t s) = Suc (navs s)"
  "num_tries (send_goal t s) = num_tries s" "max_tries (send_goal t s) = max_tries s"
  "aruco_name (send_goal t s) = aruco_name s" "map_to_aruco (send_goal t s) = map_to_aruco s"
  "polls (send_goal t s) = polls s" "scans (send_goal t s) = scans s"
  "relative_pose (send_goal t s) = relative_pose s"
  "trace (send_goal t s) = trace s @ [LogInfo ''Published relative pose'', MoveBaseSendGoal ''map'' (pose_of t)]"
  by (simp_all add: send_goal_def emit_def)

lemma scanned_fields [simp]:
  "lookups (scanned E g s) = lookups s" "navs (scanned E g s) = navs s"
  "num_tries (scanned E g s) = 0" "max_tries (scanned E g s) = max_tries s"
  "aruco_name (scanned E g s) = goal_name g" "map_to_aruco (scanned E g s) = map_to_aruco s"
  "polls (scanned E g s) = Suc (polls s)" "scans (scanned E g s) = Suc (scans s)"
  "relative_pose (scanned E g s) = goal_pose g"
  "trace (scanned E g s) = trace s @
     [PublishFeedback ''Scanning for marker...'' ''info'', HeadScanSendGoal (goal_name g)]"
  by (simp_all add: scanned_def head_scan_def publish_feedback_def emit_def)

lemma started_fields [simp]:
  "lookups (started E g m m2 s) = Suc (Suc (lookups s))" "navs (started E g m m2 s) = navs s"
  "num_tries (started E g m m2 s) = 0" "max_tries (started E g m m2 s) = max_tries s"
  "aruco_name (started E g m m2 s) = goal_name g" "map_to_aruco (started E g m m2 s) = m2"
  "polls (started E g m m2 s) = Suc (polls s)" "scans (started E g m m2 s) = Suc (scans s)"
  "relative_pose (started E g m m2 s) = goal_pose g"
  "trace (started E g m m2 s) = trace s @
     [PublishFeedback ''Scanning for marker...'' ''info'', HeadScanSendGoal (goal_name g),
      LogInfo (goal_name g @ '' pose published to tf'')]"
  by (simp_all add: started_def emit_def)

lemma execute_preempt:
  "is_preempt_requested E (polls s) \<Longrightarrow>
   execute_callback n E g s = Returned (preempt_callback (scanned E g s))"
  by (simp add: execute_callback_def Let_def scanned_def head_scan_def publish_feedback_def emit_def)

lemma execute_not_found:
  "\<not> is_preempt_requested E (polls s) \<Longrightarrow> \<not> head_scan_result E (scans s) \<Longrightarrow>
   execute_callback n E g s =
     Returned (emit SetAborted (publish_feedback msg_not_found ''error'' (scanned E g s)))"
  by (simp add: execute_callback_def Let_def scanned_def head_scan_def publish_feedback_def emit_def)

lemma execute_first_lookup_raises:
  "\<not> is_preempt_requested E (polls s) \<Longrightarrow> head_scan_result E (scans s) \<Longrightarrow>
   lookup_transform E (lookups s) ''base_link'' (goal_name g) = Inl e \<Longrightarrow>
   execute_callback n E g s = Raised e ((scanned E g s)\<lparr>lookups := Suc (lookups s)\<rparr>)"
  by (simp add: execute_callback_def Let_def scanned_def head_scan_def publish_feedback_def emit_def)

lemma execute_second_lookup_raises:
  "\<not> is_preempt_requested E (polls s) \<Longrightarrow> head_scan_result E (scans s) \<Longrightarrow>
   lookup_transform E (lookups s) ''base_link'' (goal_name g) = Inr m \<Longrightarrow>
   lookup_transform E (Suc (lookups s)) ''map'' (goal_name g) = Inl e \<Longrightarrow>
   execute_callback n E g s =
     Raised e ((scanned E g s)\<lparr>lookups := Suc (Suc (lookups s)), marker := m\<rparr>)"
  by (simp add: execute_callback_def Let_def scanned_def head_scan_def publish_feedback_def emit_def)

lemma execute_started:
  "\<not> is_preempt_requested E (polls s) \<Longrightarrow> head_scan_result E (scans s) \<Longrightarrow>
   lookup_transform E (lookups s) ''base_link'' (goal_name g) = Inr m \<Longrightarrow>
   lookup_transform E (Suc (lookups s)) ''map'' (goal_name g) = Inr m2 \<Longrightarrow>
   execute_callback n E g s = navigate_to_marker n E (started E g m m2 s)"
  unfolding execute_callback_def Let_def
  apply (simp add: head_scan_def publish_feedback_def emit_def)
  apply (rule arg_cong[where f="navigate_to_marker n E"])
  apply (rule server.equality)
  apply (simp_all add: scanned_def started_def head_scan_def publish_feedback_def emit_def)
  done

lemma preempt_callback_fields [simp]:
  "lookups (preempt_callback s) = lookups s" "navs (preempt_callback s) = navs s"
  "num_tries (preempt_callback s) = num_tries s" "max_tries (preempt_callback s) = max_tries s"
  "polls (preempt_callback s) = polls s" "scans (preempt_callback s) = scans s"
  "trace (preempt_callback s) = trace s @
     [Print ''preempt callback'', PublishFeedback msg_cancelled ''error'']"
  by (simp_all add: preempt_callback_def publish_feedback_def emit_def)

lemma lookup_failed_fields [simp]:
  "lookups (lookup_failed s) = lookups s" "navs (lookup_failed s) = navs s"
  "num_tries (lookup_failed s) = num_tries s" "max_tries (lookup_failed s) = max_tries s"
  "polls (lookup_failed s) = polls s" "scans (lookup_failed s) = scans s"
  "trace (lookup_failed s) = trace s @
     [LogInfo ''Could not publish pose to tf'', PublishFeedback msg_failed ''error'', SetAborted]"
  by (simp_all add: lookup_failed_def publish_feedback_def emit_def)

lemma publish_feedback_fields [simp]:
  "lookups (publish_feedback st al s) = lookups s" "navs (publish_feedback st al s) = navs s"
  "num_tries (publish_feedback st al s) = num_tries s" "max_tries (publish_feedback st al s) = max_tries s"
  "polls (publish_feedback st al s) = polls s" "scans (publish_feedback st al s) = scans s"
  "trace (publish_feedback st al s) = trace s @ [PublishFeedback st al]"
  by (simp_all add: publish_feedback_def emit_def)

lemma emit_fields [simp]:
  "lookups (emit e s) = lookups s" "navs (emit e s) = navs s"
  "num_tries (emit e s) = num_tries s" "max_tries (emit e s) = max_tries s"
  "polls (emit e s) = polls s" "scans (emit e s) = scans s"
  "trace (emit e s) = trace s @ [e]"
  by (simp_all add: emit_def)

lemma loop_shape:
  "(\<exists>ts' k. navigate_to_marker_loop E ts s = Sampled ts' (s\<lparr>lookups := k\<rparr>)
        \<and> length ts' = max 10 (length ts))
   \<or> (\<exists>k. navigate_to_marker_loop E ts s = Stopped (Returned (lookup_failed (s\<lparr>lookups := k\<rparr>))))
   \<or> (\<exists>k e. navigate_to_marker_loop E ts s = Stopped (Raised e (s\<lparr>lookups := k\<rparr>)))"
proof (induction E ts s rule: navigate_to_marker_loop.induct)
  case (1 E transforms s)
  show ?case
  proof (cases "length transforms < 10")
    case False
    have "navigate_to_marker_loop E transforms s = Sampled transforms (s\<lparr>lookups := lookups s\<rparr>)"
      using False by (simp add: navigate_to_marker_loop.simps[of E transforms s])
    moreover have "length transforms = max 10 (length transforms)" using False by simp
    ultimately show ?thesis by blast
  next
    case True
    show ?thesis
    proof (cases "lookup_transform E (lookups s) ''map'' ''relative_pose''")
      case (Inl e)
      then show ?thesis using True
        by (cases "caught e") (auto simp add: navigate_to_marker_loop.simps[of E transforms s])
    next
      case (Inr t)
      have eq: "navigate_to_marker_loop E transforms s =
            navigate_to_marker_loop E (transforms @ [t]) (s\<lparr>lookups := Suc (lookups s)\<rparr>)"
        using True Inr by (simp add: navigate_to_marker_loop.simps[of E transforms s])
      have mx: "max 10 (length (transforms @ [t])) = max 10 (length transforms)"
        using True by simp
      from "1.IH"[OF True Inr] show ?thesis
        unfolding eq mx by simp
    qed
  qed
qed

lemma cycles_append [simp]: "cycles (xs @ ys) = cycles xs + cycles ys"
  by (simp add: cycles_def)

lemma attempts_append [simp]: "attempts (xs @ ys) = attempts xs + attempts ys"
  by (simp add: attempts_def)

lemma server_calls_append [simp]: "server_calls (xs @ ys) = server_calls xs @ server_calls ys"
  by (simp add: server_calls_def)

lemma cycles_Cons [simp]:
  "cycles (e # xs) = (if is_send_transform e then Suc (cycles xs) else cycles xs)"
  "cycles [] = 0"
  by (simp_all add: cycles_def)

lemma attempts_Cons [simp]:
  "attempts (e # xs) = (if is_move_base_goal e then Suc (attempts xs) else attempts xs)"
  "attempts [] = 0"
  by (simp_all add: attempts_def)

lemma server_calls_Cons [simp]:
  "server_calls (e # xs) = (if is_feedback e \<or> is_terminal e then e # server_calls xs else server_calls xs)"
  "server_calls [] = []"
  by (simp_all add: server_calls_def)

lemma report_success_final [simp]:
  "is_exhausted (report_success out) = is_exhausted out"
  "num_tries (final (report_success out)) = num_tries (final out)"
  "max_tries (final (report_success out)) = max_tries (final out)"
  "cycles (trace (final (report_success out))) = cycles (trace (final out))"
  "attempts (trace (final (report_success out))) = attempts (trace (final out))"
  by (cases out; simp add: report_success_def)+

lemma bounded_report_success: "bounded s out \<Longrightarrow> bounded s (report_success out)"
  by (simp add: bounded_def)

lemma navigate_shape:
  assumes "\<not> is_preempt_requested E (polls s)"
  shows "(\<exists>k t. navigate_to_marker (Suc n) E s =
            move_base_aruco_callback n E (move_base_result E (navs s))
              (send_goal t ((begin_cycle s)\<lparr>lookups := k\<rparr>)))
       \<or> (\<exists>k. navigate_to_marker (Suc n) E s =
            Returned (lookup_failed ((begin_cycle s)\<lparr>lookups := k\<rparr>)))
       \<or> (\<exists>k e. navigate_to_marker (Suc n) E s = Raised e ((begin_cycle s)\<lparr>lookups := k\<rparr>))"
proof -
  note unf = navigate_unfold[OF assms, of n]
  from loop_shape[of E "[]" "begin_cycle s"]
  consider (sampled) ts k where
      "navigate_to_marker_loop E [] (begin_cycle s) = Sampled ts ((begin_cycle s)\<lparr>lookups := k\<rparr>)"
      "length ts = max 10 (length ([] :: transform_stamped list))"
    | (failed) k where
      "navigate_to_marker_loop E [] (begin_cycle s) =
         Stopped (Returned (lookup_failed ((begin_cycle s)\<lparr>lookups := k\<rparr>)))"
    | (raised) k e where
      "navigate_to_marker_loop E [] (begin_cycle s) =
         Stopped (Raised e ((begin_cycle s)\<lparr>lookups := k\<rparr>))"
    by blast
  then show ?thesis
  proof cases
    case failed
    have "navigate_to_marker (Suc n) E s = Returned (lookup_failed ((begin_cycle s)\<lparr>lookups := k\<rparr>))"
      unfolding unf failed by simp
    then show ?thesis by blast
  next
    case raised
    have "navigate_to_marker (Suc n) E s = Raised e ((begin_cycle s)\<lparr>lookups := k\<rparr>)"
      unfolding unf raised by simp
    then show ?thesis by blast
  next
    case sampled
    have ne: "[0..<length ts] \<noteq> []" using sampled(2) by simp
    from average_transforms_frame[OF ne, of E "\<lambda>r. ts ! r"]
    obtain h where avg: "average_transforms E [0..<length ts] (\<lambda>r. ts ! r) = Inr (hd [0..<length ts], h)"
      by blast
    have "navigate_to_marker (Suc n) E s =
        move_base_aruco_callback n E (move_base_result E (navs s))
          (send_goal (h (hd [0..<length ts])) ((begin_cycle s)\<lparr>lookups := k\<rparr>))"
      unfolding unf sampled(1) by (simp add: avg)
    then show ?thesis by blast
  qed
qed

lemma callback_shape:
  assumes "\<not> is_preempt_requested E (polls s)" "num_tries s \<noteq> max_tries s"
  shows "move_base_aruco_callback (Suc n) E r s =
           Returned (emit SetAborted (publish_feedback msg_not_found ''error'' (rescan E s)))
       \<or> move_base_aruco_callback (Suc n) E r s =
           Returned (lookup_failed ((rescan E s)\<lparr>lookups := Suc (lookups s)\<rparr>))
       \<or> (\<exists>e. move_base_aruco_callback (Suc n) E r s =
           Raised e ((rescan E s)\<lparr>lookups := Suc (lookups s)\<rparr>))
       \<or> move_base_aruco_callback (Suc n) E r s =
           report_success (Returned ((rescan E s)\<lparr>lookups := Suc (lookups s)\<rparr>))
       \<or> (\<exists>m. move_base_aruco_callback (Suc n) E r s =
           report_success (navigate_to_marker n E
             ((rescan E s)\<lparr>lookups := Suc (lookups s), map_to_aruco := m\<rparr>)))"
proof -
  note unf = callback_unfold[OF assms, of n r]
  show ?thesis
  proof (cases "head_scan_result E (scans s)")
    case False
    then show ?thesis unfolding unf by simp
  next
    case found: True
    show ?thesis
    proof (cases "lookup_transform E (lookups s) ''map'' (aruco_name s)")
      case (Inl e)
      then show ?thesis unfolding unf using found by (cases "caught e") simp_all
    next
      case (Inr m)
      show ?thesis
      proof (cases "calculate_diff E (map_to_aruco s) m > 0.075")
        case False
        then show ?thesis unfolding unf using found Inr by simp
      next
        case True
        have "move_base_aruco_callback (Suc n) E r s =
           report_success (navigate_to_marker n E
             ((rescan E s)\<lparr>lookups := Suc (lookups s), map_to_aruco := m\<rparr>))"
          unfolding unf using found Inr True by simp
        then show ?thesis by blast
      qed
    qed
  qed
qed

lemma boundedI:
  "\<not> is_exhausted out \<Longrightarrow> max_tries (final out) = 3 \<Longrightarrow> 0 \<le> num_tries (final out) \<Longrightarrow>
   num_tries (final out) \<le> 3 \<Longrightarrow> cycles (trace (final out)) = cycles (trace s) + j \<Longrightarrow>
   int j \<le> 3 - num_tries s \<Longrightarrow>
   num_tries (final out) = num_tries s + int j \<or> num_tries (final out) = 0 \<Longrightarrow>
   bounded s out"
  unfolding bounded_def by blast

lemma bounded_after_cycle:
  assumes "bounded s1 out" "num_tries s1 = num_tries s + 1" "cycles (trace s1) = cycles (trace s) + 1"
    "0 \<le> num_tries s"
  shows "bounded s out"
proof -
  from assms(1) obtain j where
    a: "\<not> is_exhausted out" "max_tries (final out) = 3" "0 \<le> num_tries (final out)"
       "num_tries (final out) \<le> 3"
    and j: "cycles (trace (final out)) = cycles (trace s1) + j" "int j \<le> 3 - num_tries s1"
       "num_tries (final out) = num_tries s1 + int j \<or> num_tries (final out) = 0"
    unfolding bounded_def by blast
  show ?thesis
  proof (rule boundedI[where j="Suc j"])
    show "cycles (trace (final out)) = cycles (trace s) + Suc j" using j(1) assms(3) by simp
    show "int (Suc j) \<le> 3 - num_tries s" using j(2) assms(2) by simp
    show "num_tries (final out) = num_tries s + int (Suc j) \<or> num_tries (final out) = 0"
      using j(3) assms(2) by auto
  qed (use a in simp_all)
qed

lemma bounded_same:
  assumes "bounded s2 out" "num_tries s2 = num_tries s" "cycles (trace s2) = cycles (trace s)"
  shows "bounded s out"
  using assms unfolding bounded_def by simp

lemma bounded_stop:
  assumes "\<not> is_exhausted out" "max_tries (final out) = 3" "max_tries s = 3"
    "0 \<le> num_tries s" "num_tries s \<le> 3"
    "num_tries (final out) = num_tries s \<or> num_tries (final out) = 0"
    "cycles (trace (final out)) = cycles (trace s)"
  shows "bounded s out"
proof (rule boundedI[where j=0])
  show "num_tries (final out) = num_tries s + int 0 \<or> num_tries (final out) = 0"
    using assms(6) by simp
  show "0 \<le> num_tries (final out)" "num_tries (final out) \<le> 3" using assms(4,5,6) by auto
qed (use assms in simp_all)

lemma bounded_navigate_callback:
  "(max_tries s = 3 \<longrightarrow> 0 \<le> num_tries s \<longrightarrow> num_tries s < 3 \<longrightarrow> 2 * nat (3 - num_tries s) \<le> n
      \<longrightarrow> bounded s (navigate_to_marker n E s))
   \<and> (max_tries s = 3 \<longrightarrow> 0 \<le> num_tries s \<longrightarrow> num_tries s \<le> 3 \<longrightarrow> 2 * nat (3 - num_tries s) + 1 \<le> n
      \<longrightarrow> bounded s (move_base_aruco_callback n E r s))"
proof (induction n arbitrary: s r rule: less_induct)
  case (less n)
  have nav: "bounded s (navigate_to_marker n E s)"
    if mt: "max_tries s = 3" and lo: "0 \<le> num_tries s" and hi: "num_tries s < 3"
      and fuel: "2 * nat (3 - num_tries s) \<le> n" for s
  proof -
    from hi fuel obtain n' where n: "n = Suc n'" by (cases n) auto
    show ?thesis
    proof (cases "is_preempt_requested E (polls s)")
      case True
      have "bounded s (Returned (preempt_callback (s\<lparr>polls := Suc (polls s)\<rparr>)))"
        by (rule bounded_stop) (use mt lo hi in simp_all)
      then show ?thesis unfolding n navigate_preempt[OF True] .
    next
      case False
      have cyc: "cycles (trace (begin_cycle s)) = cycles (trace s) + 1" by simp
      from navigate_shape[OF False, of n']
      consider (called) k t where
          "navigate_to_marker (Suc n') E s =
            move_base_aruco_callback n' E (move_base_result E (navs s))
              (send_goal t ((begin_cycle s)\<lparr>lookups := k\<rparr>))"
        | (failed) k where
          "navigate_to_marker (Suc n') E s =
            Returned (lookup_failed ((begin_cycle s)\<lparr>lookups := k\<rparr>))"
        | (raised) k e where
          "navigate_to_marker (Suc n') E s = Raised e ((begin_cycle s)\<lparr>lookups := k\<rparr>)"
        by blast
      then show ?thesis
      proof cases
        case failed
        let ?s1 = "(begin_cycle s)\<lparr>lookups := k\<rparr>"
        have "bounded ?s1 (Returned (lookup_failed ?s1))"
          by (rule bounded_stop) (use mt lo hi in simp_all)
        then have "bounded s (Returned (lookup_failed ?s1))"
          by (rule bounded_after_cycle) (use lo in simp_all)
        then show ?thesis unfolding n failed .
      next
        case raised
        let ?s1 = "(begin_cycle s)\<lparr>lookups := k\<rparr>"
        have "bounded ?s1 (Raised e ?s1)"
          by (rule bounded_stop) (use mt lo hi in simp_all)
        then have "bounded s (Raised e ?s1)"
          by (rule bounded_after_cycle) (use lo in simp_all)
        then show ?thesis unfolding n raised .
      next
        case called
        let ?s1 = "send_goal t ((begin_cycle s)\<lparr>lookups := k\<rparr>)"
        have "n' < n" using n by simp
        moreover have "max_tries ?s1 = 3" "0 \<le> num_tries ?s1" "num_tries ?s1 \<le> 3"
          using mt lo hi by simp_all
        moreover have "2 * nat (3 - num_tries ?s1) + 1 \<le> n'"
          using fuel lo hi n by simp
        ultimately have b: "bounded ?s1 (move_base_aruco_callback n' E (move_base_result E (navs s)) ?s1)"
          using less.IH by blast
        have "bounded s (move_base_aruco_callback n' E (move_base_result E (navs s)) ?s1)"
          using b by (rule bounded_after_cycle) (use lo in simp_all)
        then show ?thesis unfolding n called .
      qed
    qed
  qed
  have cb: "bounded s (move_base_aruco_callback n E r s)"
    if mt: "max_tries s = 3" and lo: "0 \<le> num_tries s" and hi: "num_tries s \<le> 3"
      and fuel: "2 * nat (3 - num_tries s) + 1 \<le> n" for s r
  proof -
    from fuel obtain n' where n: "n = Suc n'" by (cases n) auto
    show ?thesis
    proof (cases "is_preempt_requested E (polls s)")
      case True
      have "bounded s (Returned (preempt_callback (s\<lparr>polls := Suc (polls s)\<rparr>)))"
        by (rule bounded_stop) (use mt lo hi in simp_all)
      then show ?thesis unfolding n callback_preempt[OF True] .
    next
      case False
      show ?thesis
      proof (cases "num_tries s = max_tries s")
        case True
        have "bounded s (Returned (emit SetAborted (publish_feedback msg_failed ''error''
                (s\<lparr>polls := Suc (polls s), num_tries := 0\<rparr>))))"
          by (rule bounded_stop) (use mt lo hi in simp_all)
        then show ?thesis unfolding n callback_exhausted[OF False True] .
      next
        case ne: False
        let ?s1 = "(rescan E s)\<lparr>lookups := Suc (lookups s)\<rparr>"
        from callback_shape[OF False ne, of n' r]
        consider (notfound) "move_base_aruco_callback (Suc n') E r s =
             Returned (emit SetAborted (publish_feedback msg_not_found ''error'' (rescan E s)))"
          | (failed) "move_base_aruco_callback (Suc n') E r s = Returned (lookup_failed ?s1)"
          | (raised) e where "move_base_aruco_callback (Suc n') E r s = Raised e ?s1"
          | (converged) "move_base_aruco_callback (Suc n') E r s = report_success (Returned ?s1)"
          | (retry) m where "move_base_aruco_callback (Suc n') E r s =
               report_success (navigate_to_marker n' E
                 ((rescan E s)\<lparr>lookups := Suc (lookups s), map_to_aruco := m\<rparr>))"
          by blast
        then show ?thesis
        proof cases
          case notfound
          have "bounded s (Returned (emit SetAborted (publish_feedback msg_not_found ''error'' (rescan E s))))"
            by (rule bounded_stop) (use mt lo hi in simp_all)
          then show ?thesis unfolding n notfound .
        next
          case failed
          have "bounded s (Returned (lookup_failed ?s1))"
            by (rule bounded_stop) (use mt lo hi in simp_all)
          then show ?thesis unfolding n failed .
        next
          case raised
          have "bounded s (Raised e ?s1)"
            by (rule bounded_stop) (use mt lo hi in simp_all)
          then show ?thesis unfolding n raised .
        next
          case converged
          have "bounded s (Returned ?s1)"
            by (rule bounded_stop) (use mt lo hi in simp_all)
          then show ?thesis unfolding n converged by (rule bounded_report_success)
        next
          case retry
          let ?s2 = "(rescan E s)\<lparr>lookups := Suc (lookups s), map_to_aruco := m\<rparr>"
          have "n' < n" using n by simp
          moreover have "max_tries ?s2 = 3" "0 \<le> num_tries ?s2" "num_tries ?s2 < 3"
            using mt lo hi ne by simp_all
          moreover have "2 * nat (3 - num_tries ?s2) \<le> n'" using fuel n by simp
          ultimately have "bounded ?s2 (navigate_to_marker n' E ?s2)"
            using less.IH by blast
          then have "bounded s (navigate_to_marker n' E ?s2)"
            by (rule bounded_same) simp_all
          then show ?thesis unfolding n retry by (rule bounded_report_success)
        qed
      qed
    qed
  qed
  show ?case using nav cb by blast
qed

lemma execute_shape:
  "execute_callback n E g s = Returned (preempt_callback (scanned E g s))
   \<or> execute_callback n E g s =
        Returned (emit SetAborted (publish_feedback msg_not_found ''error'' (scanned E g s)))
   \<or> (\<exists>e. execute_callback n E g s = Raised e ((scanned E g s)\<lparr>lookups := Suc (lookups s)\<rparr>))
   \<or> (\<exists>e m. execute_callback n E g s =
        Raised e ((scanned E g s)\<lparr>lookups := Suc (Suc (lookups s)), marker := m\<rparr>))
   \<or> (\<exists>m m2. execute_callback n E g s = navigate_to_marker n E (started E g m m2 s))"
proof (cases "is_preempt_requested E (polls s)")
  case True
  then show ?thesis by (simp add: execute_preempt)
next
  case np: False
  show ?thesis
  proof (cases "head_scan_result E (scans s)")
    case False
    then show ?thesis using np by (simp add: execute_not_found)
  next
    case found: True
    show ?thesis
    proof (cases "lookup_transform E (lookups s) ''base_link'' (goal_name g)")
      case (Inl e)
      from execute_first_lookup_raises[OF np found Inl] show ?thesis by blast
    next
      case (Inr m)
      show ?thesis
      proof (cases "lookup_transform E (Suc (lookups s)) ''map'' (goal_name g)")
        case (Inl e)
        from execute_second_lookup_raises[OF np found Inr Inl] show ?thesis by blast
      next
        case m2: (Inr m2)
        from execute_started[OF np found Inr m2] show ?thesis by blast
      qed
    qed
  qed
qed

lemma bounded_execute:
  assumes mt: "max_tries s = 3" and fuel: "6 \<le> n"
  shows "bounded (scanned E g s) (execute_callback n E g s)"
proof -
  from execute_shape[of n E g s]
  consider (pre) "execute_callback n E g s = Returned (preempt_callback (scanned E g s))"
    | (nf) "execute_callback n E g s =
        Returned (emit SetAborted (publish_feedback msg_not_found ''error'' (scanned E g s)))"
    | (r1) e where "execute_callback n E g s = Raised e ((scanned E g s)\<lparr>lookups := Suc (lookups s)\<rparr>)"
    | (r2) e m where "execute_callback n E g s =
        Raised e ((scanned E g s)\<lparr>lookups := Suc (Suc (lookups s)), marker := m\<rparr>)"
    | (go) m m2 where "execute_callback n E g s = navigate_to_marker n E (started E g m m2 s)"
    by blast
  then show ?thesis
  proof cases
    case pre
    show ?thesis unfolding pre by (rule bounded_stop) (use mt in simp_all)
  next
    case nf
    show ?thesis unfolding nf by (rule bounded_stop) (use mt in simp_all)
  next
    case r1
    show ?thesis unfolding r1 by (rule bounded_stop) (use mt in simp_all)
  next
    case r2
    show ?thesis unfolding r2 by (rule bounded_stop) (use mt in simp_all)
  next
    case go
    have "bounded (started E g m m2 s) (navigate_to_marker n E (started E g m m2 s))"
      using bounded_navigate_callback[of "started E g m m2 s" n E] mt fuel by simp
    then show ?thesis unfolding go by (rule bounded_same) simp_all
  qed
qed

lemma head_scans_append [simp]: "head_scans (xs @ ys) = head_scans xs + head_scans ys"
  by (simp add: head_scans_def)

lemma head_scans_Cons [simp]:
  "head_scans (e # xs) = (if is_head_scan_goal e then Suc (head_scans xs) else head_scans xs)"
  "head_scans [] = 0"
  by (simp_all add: head_scans_def)

lemma run_ends_prefix:
  assumes "run_ends s1 out fb a hs" "trace s1 = trace s @ evs0"
  shows "run_ends s out (server_calls evs0 @ fb) (attempts evs0 + a) (head_scans evs0 + hs)"
proof -
  from assms(1) obtain s' evs where
    "out = Returned s'" "num_tries s' = 0" "trace s' = trace s1 @ evs"
    "server_calls evs = fb" "attempts evs = a" "head_scans evs = hs"
    unfolding run_ends_def by blast
  then have "out = Returned s' \<and> num_tries s' = 0 \<and> trace s' = trace s @ (evs0 @ evs) \<and>
        server_calls (evs0 @ evs) = server_calls evs0 @ fb \<and> attempts (evs0 @ evs) = attempts evs0 + a
        \<and> head_scans (evs0 @ evs) = head_scans evs0 + hs"
    using assms(2) by simp
  then show ?thesis unfolding run_ends_def by blast
qed

lemma run_ends_report_success:
  assumes "run_ends s out fb a hs"
  shows "run_ends s (report_success out)
           (fb @ [PublishFeedback msg_succeeded ''success'', SetSucceeded]) a hs"
proof -
  from assms obtain s' evs where
    o: "out = Returned s'" and r: "num_tries s' = 0" "trace s' = trace s @ evs"
    "server_calls evs = fb" "attempts evs = a" "head_scans evs = hs"
    unfolding run_ends_def by blast
  let ?s'' = "emit SetSucceeded (publish_feedback msg_succeeded ''success'' s')"
  let ?evs = "evs @ [PublishFeedback msg_succeeded ''success'', SetSucceeded]"
  have "report_success out = Returned ?s''" unfolding o by (simp add: report_success_def)
  moreover have "num_tries ?s'' = 0" using r(1) by simp
  moreover have "trace ?s'' = trace s @ ?evs" using r(2) by simp
  moreover have "server_calls ?evs = fb @ [PublishFeedback msg_succeeded ''success'', SetSucceeded]"
    using r(3) by simp
  moreover have "attempts ?evs = a" "head_scans ?evs = hs" using r(4,5) by simp_all
  ultimately show ?thesis unfolding run_ends_def by blast
qed

lemma callback_ends:
  assumes "cooperative E w" "num_tries s = max_tries s"
  shows "run_ends s (move_base_aruco_callback (Suc n) E r s)
           [PublishFeedback msg_failed ''error'', SetAborted] 0 0"
proof -
  have np: "\<not> is_preempt_requested E (polls s)" using assms(1) by (simp add: cooperative_def)
  let ?s' = "emit SetAborted (publish_feedback msg_failed ''error''
       (s\<lparr>polls := Suc (polls s), num_tries := 0\<rparr>))"
  have "move_base_aruco_callback (Suc n) E r s = Returned ?s'"
    by (rule callback_exhausted[OF np assms(2)])
  moreover have "num_tries ?s' = 0" by simp
  moreover have "trace ?s' = trace s @ [PublishFeedback msg_failed ''error'', SetAborted]" by simp
  ultimately show ?thesis unfolding run_ends_def
    by (intro exI[where x="?s'"] exI[where x="[PublishFeedback msg_failed ''error'', SetAborted]"]) simp
qed

lemma navigate_lift:
  assumes H: "cooperative E w" and inv: "tracking w nm i L s"
    and step: "\<And>s1 r. tracking w nm i (L + 10) s1 \<Longrightarrow> num_tries s1 = num_tries s + 1 \<Longrightarrow>
                 run_ends s1 (move_base_aruco_callback n E r s1) fb a hs"
  shows "run_ends s (navigate_to_marker (Suc n) E s)
           (PublishFeedback ''Navigating to marker...'' ''info'' # fb) (Suc a) hs"
proof -
  have np: "\<not> is_preempt_requested E (polls s)" using H by (simp add: cooperative_def)
  have lk: "\<forall>i<10. lookup_transform E (lookups s + i) ''map'' ''relative_pose'' =
      Inr (w (lookups s + i) ''map'' ''relative_pose'')"
    using H by (simp add: cooperative_def)
  from navigate_sampled[where E = E and s = s and w = "\<lambda>k. w k ''map'' ''relative_pose''" and n = n, OF np lk]
  obtain h :: heap where eq: "navigate_to_marker (Suc n) E s =
       move_base_aruco_callback n E (move_base_result E (navs s))
         (send_goal (h 0) ((begin_cycle s)\<lparr>lookups := lookups s + 10\<rparr>))"
    by blast
  let ?s1 = "send_goal (h 0) ((begin_cycle s)\<lparr>lookups := lookups s + 10\<rparr>)"
  from inv have i: "map_to_aruco s = w i ''map'' nm" "lookups s = L"
    and mt: "max_tries s = 3" and nm: "aruco_name s = nm"
    unfolding tracking_def by blast+
  have inv1: "tracking w nm i (L + 10) ?s1" unfolding tracking_def using i mt nm by simp
  have tr: "trace ?s1 = trace s @
     [SendTransform (broadcast_tf (relative_pose s) ''relative_pose'' (aruco_name s)),
      PublishFeedback ''Navigating to marker...'' ''info'',
      LogInfo ''Published relative pose'', MoveBaseSendGoal ''map'' (pose_of (h 0))]"
    by simp
  have "run_ends ?s1 (move_base_aruco_callback n E (move_base_result E (navs s)) ?s1) fb a hs"
    by (rule step[OF inv1]) simp
  from run_ends_prefix[OF this tr] show ?thesis unfolding eq by simp
qed

lemma callback_lift:
  assumes H: "cooperative E w" and inv: "tracking w nm i L s" and ne: "num_tries s \<noteq> max_tries s"
    and far: "calculate_diff E (w i ''map'' nm) (w L ''map'' nm) > 0.075"
    and step: "\<And>s2. tracking w nm L (Suc L) s2 \<Longrightarrow> num_tries s2 = num_tries s \<Longrightarrow>
                 run_ends s2 (navigate_to_marker n E s2) fb a hs"
  shows "run_ends s (move_base_aruco_callback (Suc n) E r s)
           (fb @ [PublishFeedback msg_succeeded ''success'', SetSucceeded]) a (Suc hs)"
proof -
  have np: "\<not> is_preempt_requested E (polls s)" using H by (simp add: cooperative_def)
  have found: "head_scan_result E (scans s)" using H by (simp add: cooperative_def)
  from inv have i: "map_to_aruco s = w i ''map'' nm" "lookups s = L"
    and mt: "max_tries s = 3" and nm: "aruco_name s = nm"
    unfolding tracking_def by blast+
  have lk: "lookup_transform E (lookups s) ''map'' (aruco_name s) = Inr (w L ''map'' nm)"
    using H nm i by (simp add: cooperative_def)
  have far': "calculate_diff E (map_to_aruco s) (w L ''map'' nm) > 0.075"
    using far i by simp
  let ?s2 = "(rescan E s)\<lparr>lookups := Suc (lookups s), map_to_aruco := w L ''map'' nm\<rparr>"
  have eq: "move_base_aruco_callback (Suc n) E r s = report_success (navigate_to_marker n E ?s2)"
    unfolding callback_unfold[OF np ne] using found lk far' by simp
  have inv2: "tracking w nm L (Suc L) ?s2" unfolding tracking_def using mt nm i by simp
  have tr: "trace ?s2 = trace s @ [Sleep, HeadScanSendGoal (aruco_name s)]" by simp
  have "run_ends ?s2 (navigate_to_marker n E ?s2) fb a hs"
    by (rule step[OF inv2]) simp
  from run_ends_report_success[OF run_ends_prefix[OF this tr]]
  show ?thesis unfolding eq by simp
qed

lemma navigate_never_converges:
  assumes H: "never_converges E w nm l" and inv: "tracking w nm (l + 1) (l + 2) s"
    and nt: "num_tries s = 0"
  shows "run_ends s (navigate_to_marker (Suc (Suc (Suc (Suc (Suc (Suc n)))))) E s)
     [fb_navigating, fb_navigating, fb_navigating, fb_failed, SetAborted,
      fb_succeeded, SetSucceeded, fb_succeeded, SetSucceeded] 3 2"
proof -
  from H have C: "cooperative E w"
    and far1: "calculate_diff E (w (l + 1) ''map'' nm) (w (l + 12) ''map'' nm) > 0.075"
    and far2: "calculate_diff E (w (l + 12) ''map'' nm) (w (l + 23) ''map'' nm) > 0.075"
    unfolding never_converges_def by blast+
  have c3: "run_ends s3 (move_base_aruco_callback (Suc n) E r s3) [fb_failed, SetAborted] 0 0"
    if "tracking w nm i L s3" "num_tries s3 = 3" for s3 r i L
    using callback_ends[OF C, of s3 n r] that by (simp add: tracking_def)
  have n2: "run_ends s2 (navigate_to_marker (Suc (Suc n)) E s2) [fb_navigating, fb_failed, SetAborted] 1 0"
    if "tracking w nm (l + 23) (l + 24) s2" "num_tries s2 = 2" for s2
    using navigate_lift[OF C that(1), of "Suc n" "[fb_failed, SetAborted]" 0 0] c3 that(2)
    by (simp add: numeral_2_eq_2 numeral_3_eq_3)
  have c2: "run_ends s2 (move_base_aruco_callback (Suc (Suc (Suc n))) E r s2)
      [fb_navigating, fb_failed, SetAborted, fb_succeeded, SetSucceeded] 1 1"
    if t: "tracking w nm (l + 12) (l + 23) s2" and k: "num_tries s2 = 2" for s2 r
  proof -
    have ne: "num_tries s2 \<noteq> max_tries s2" using t k by (simp add: tracking_def)
    have st: "run_ends s (navigate_to_marker (Suc (Suc n)) E s) [fb_navigating, fb_failed, SetAborted] 1 0"
      if a: "tracking w nm (l + 23) (Suc (l + 23)) s" and b: "num_tries s = num_tries s2" for s
    proof -
      have "Suc (l + 23) = l + 24" by simp
      with a have "tracking w nm (l + 23) (l + 24) s" by (simp only:)
      moreover have "num_tries s = 2" using b k by simp
      ultimately show ?thesis by (rule n2)
    qed
    from callback_lift[OF C t ne far2 st, of r] show ?thesis by (simp add: numeral_2_eq_2)
  qed
  have n1: "run_ends s1 (navigate_to_marker (Suc (Suc (Suc (Suc n)))) E s1)
      [fb_navigating, fb_navigating, fb_failed, SetAborted, fb_succeeded, SetSucceeded] 2 1"
    if t: "tracking w nm (l + 12) (l + 13) s1" and k: "num_tries s1 = 1" for s1
  proof -
    have st: "run_ends s (move_base_aruco_callback (Suc (Suc (Suc n))) E r s)
        [fb_navigating, fb_failed, SetAborted, fb_succeeded, SetSucceeded] 1 1"
      if a: "tracking w nm (l + 12) (l + 13 + 10) s" and b: "num_tries s = num_tries s1 + 1" for s r
    proof -
      have "l + 13 + 10 = l + 23" by simp
      with a have "tracking w nm (l + 12) (l + 23) s" by (simp only:)
      moreover have "num_tries s = 2" using b k by simp
      ultimately show ?thesis by (rule c2)
    qed
    from navigate_lift[OF C t st] show ?thesis by (simp add: numeral_2_eq_2)
  qed
  have c1: "run_ends s1 (move_base_aruco_callback (Suc (Suc (Suc (Suc (Suc n))))) E r s1)
      [fb_navigating, fb_navigating, fb_failed, SetAborted, fb_succeeded, SetSucceeded,
       fb_succeeded, SetSucceeded] 2 2"
    if t: "tracking w nm (l + 1) (l + 12) s1" and k: "num_tries s1 = 1" for s1 r
  proof -
    have ne: "num_tries s1 \<noteq> max_tries s1" using t k by (simp add: tracking_def)
    have st: "run_ends s (navigate_to_marker (Suc (Suc (Suc (Suc n)))) E s)
        [fb_navigating, fb_navigating, fb_failed, SetAborted, fb_succeeded, SetSucceeded] 2 1"
      if a: "tracking w nm (l + 12) (Suc (l + 12)) s" and b: "num_tries s = num_tries s1" for s
    proof -
      have "Suc (l + 12) = l + 13" by simp
      with a have "tracking w nm (l + 12) (l + 13) s" by (simp only:)
      moreover have "num_tries s = 1" using b k by simp
      ultimately show ?thesis by (rule n1)
    qed
    from callback_lift[OF C t ne far1 st, of r] show ?thesis by (simp add: numeral_2_eq_2)
  qed
  have st: "run_ends s1 (move_base_aruco_callback (Suc (Suc (Suc (Suc (Suc n))))) E r s1)
      [fb_navigating, fb_navigating, fb_failed, SetAborted, fb_succeeded, SetSucceeded,
       fb_succeeded, SetSucceeded] 2 2"
    if a: "tracking w nm (l + 1) (l + 2 + 10) s1" and b: "num_tries s1 = num_tries s + 1" for s1 r
  proof -
    have "l + 2 + 10 = l + 12" by simp
    with a have "tracking w nm (l + 1) (l + 12) s1" by (simp only:)
    moreover have "num_tries s1 = 1" using b nt by simp
    ultimately show ?thesis by (rule c1)
  qed
  from navigate_lift[OF C inv st] show ?thesis by (simp add: numeral_2_eq_2 numeral_3_eq_3)
qed

lemma execute_never_converges:
  assumes H: "never_converges E w (goal_name g) (lookups s)" and mt: "max_tries s = 3"
    and fuel: "6 \<le> n"
  shows "run_ends s (execute_callback n E g s)
     [PublishFeedback ''Scanning for marker...'' ''info'',
      fb_navigating, fb_navigating, fb_navigating, fb_failed, SetAborted,
      fb_succeeded, SetSucceeded, fb_succeeded, SetSucceeded] 3 3"
proof -
  from fuel obtain n' where "n = 6 + n'" using le_iff_add by blast
  then have n: "n = Suc (Suc (Suc (Suc (Suc (Suc n')))))" by (simp add: eval_nat_numeral)
  from H have C: "cooperative E w" unfolding never_converges_def by blast
  have np: "\<not> is_preempt_requested E (polls s)" and found: "head_scan_result E (scans s)"
    and l1: "lookup_transform E (lookups s) ''base_link'' (goal_name g) =
        Inr (w (lookups s) ''base_link'' (goal_name g))"
    and l2: "lookup_transform E (Suc (lookups s)) ''map'' (goal_name g) =
        Inr (w (Suc (lookups s)) ''map'' (goal_name g))"
    using C by (simp_all add: cooperative_def)
  let ?s0 = "started E g (w (lookups s) ''base_link'' (goal_name g))
               (w (Suc (lookups s)) ''map'' (goal_name g)) s"
  have eq: "execute_callback n E g s = navigate_to_marker n E ?s0"
    by (rule execute_started[OF np found l1 l2])
  have inv: "tracking w (goal_name g) (lookups s + 1) (lookups s + 2) ?s0"
    unfolding tracking_def using mt by simp
  have tr: "trace ?s0 = trace s @
     [PublishFeedback ''Scanning for marker...'' ''info'', HeadScanSendGoal (goal_name g),
      LogInfo (goal_name g @ '' pose published to tf'')]" by simp
  have "run_ends ?s0 (navigate_to_marker n E ?s0)
     [fb_navigating, fb_navigating, fb_navigating, fb_failed, SetAborted,
      fb_succeeded, SetSucceeded, fb_succeeded, SetSucceeded] 3 2"
    unfolding n by (rule navigate_never_converges[OF H inv]) simp
  from run_ends_prefix[OF this tr] show ?thesis unfolding eq
    by (simp add: numeral_2_eq_2 numeral_3_eq_3)
qed

lemma test_env_fields [simp]:
  "is_preempt_requested test_env k = False" "head_scan_result test_env k = True"
  "lookup_transform test_env k a b = Inr (test_pose k a b)"
  "move_base_result test_env k = 4"
  by (simp_all add: test_env_def test_pose_def)

lemma test_env_diff: "calculate_diff test_env (test_pose i a b) (test_pose j c d) = \<bar>real i - real j\<bar>"
  by (simp add: calculate_diff_def test_env_def test_pose_def)

lemma test_env_cooperative: "cooperative test_env test_pose"
  by (simp add: cooperative_def)

lemma test_env_never_converges: "never_converges test_env test_pose nm l"
  unfolding never_converges_def test_env_diff using test_env_cooperative by simp

lemma swinging_env_fields [simp]:
  "is_preempt_requested swinging_env k = False" "head_scan_result swinging_env k = True"
  "lookup_transform swinging_env k a b = Inr (test_pose (k mod 2) a b)"
  "move_base_result swinging_env k = 4"
  by (simp_all add: swinging_env_def)

lemma swinging_env_diff:
  "calculate_diff swinging_env (test_pose i a b) (test_pose j c d) = \<bar>real i - real j\<bar>"
  by (simp add: calculate_diff_def swinging_env_def test_env_def test_pose_def)

lemma find_server_calls: "List.find is_terminal (server_calls evs) = List.find is_terminal evs"
  by (induction evs) auto

lemma cancel_goals_trace:
  "trace (cancel_goals s) = trace s @
     [Print ''cancel goals'', HeadScanCancelAll, MoveBaseCancelAll, SetPreempted]"
  by (simp add: cancel_goals_def)

lemma failing_env_fields [simp]:
  "is_preempt_requested (failing_env k e) i = False" "head_scan_result (failing_env k e) i = True"
  "lookup_transform (failing_env k e) i a b = (if i < k then Inr (test_pose i a b) else Inl e)"
  "move_base_result (failing_env k e) i = 4"
  "euler_from_quaternion (failing_env k e) = euler_from_quaternion test_env"
  by (simp_all add: failing_env_def)

lemma late_cancel_env_fields [simp]:
  "is_preempt_requested late_cancel_env k = (3 \<le> k)" "head_scan_result late_cancel_env k = True"
  "lookup_transform late_cancel_env k a b = Inr (test_pose 0 a b)"
  by (simp_all add: late_cancel_env_def steady_env_def test_env_def)

lemma late_cancel_env_diff:
  "calculate_diff late_cancel_env (test_pose i a b) (test_pose j c d) = \<bar>real i - real j\<bar>"
  by (simp add: calculate_diff_def late_cancel_env_def steady_env_def test_env_def test_pose_def)

lemma average_transforms_loop_env:
  "average_transforms_loop (E\<lparr>move_base_result := f\<rparr>) tr rs p = average_transforms_loop E tr rs p"
proof (induction rs arbitrary: p)
  case Nil
  then show ?case by (cases p) simp
next
  case (Cons r rs)
  then show ?case by (cases p) (simp add: Let_def)
qed

lemma average_transforms_env:
  "average_transforms (E\<lparr>move_base_result := f\<rparr>) ts h = average_transforms E ts h"
  by (simp add: average_transforms_def average_transforms_loop_env split: list.splits)

lemma calculate_diff_env:
  "calculate_diff (E\<lparr>move_base_result := f\<rparr>) a b = calculate_diff E a b"
  by (simp add: calculate_diff_def)

lemma rescan_env: "rescan (E\<lparr>move_base_result := f\<rparr>) s = rescan E s"
  by (simp add: rescan_def head_scan_def)

lemma loop_env:
  "navigate_to_marker_loop (E\<lparr>move_base_result := f\<rparr>) ts s = navigate_to_marker_loop E ts s"
proof (induction "10 - length ts" arbitrary: ts s)
  case 0
  then show ?case
    by (simp add: navigate_to_marker_loop.simps[of E ts s]
          navigate_to_marker_loop.simps[of "E\<lparr>move_base_result := f\<rparr>" ts s])
next
  case (Suc k)
  then have lt: "length ts < 10" by simp
  show ?case
  proof (cases "lookup_transform E (lookups s) ''map'' ''relative_pose''")
    case (Inl e)
    then show ?thesis
      by (simp add: navigate_to_marker_loop.simps[of E ts s]
          navigate_to_marker_loop.simps[of "E\<lparr>move_base_result := f\<rparr>" ts s])
  next
    case (Inr t)
    have "k = 10 - length (ts @ [t])" using Suc.hyps(2) by simp
    from Suc.hyps(1)[OF this, of "s\<lparr>lookups := Suc (lookups s)\<rparr>"] show ?thesis
      using lt Inr
      by (simp add: navigate_to_marker_loop.simps[of E ts s]
          navigate_to_marker_loop.simps[of "E\<lparr>move_base_result := f\<rparr>" ts s])
  qed
qed

lemma navigate_callback_env:
  "navigate_to_marker n (E\<lparr>move_base_result := f\<rparr>) s = navigate_to_marker n E s
   \<and> move_base_aruco_callback n (E\<lparr>move_base_result := f\<rparr>) r s = move_base_aruco_callback n E r' s"
proof (induction n arbitrary: s r r' rule: less_induct)
  case (less n)
  let ?E = "E\<lparr>move_base_result := f\<rparr>"
  show ?case
  proof (cases n)
    case 0
    then show ?thesis by (simp add: navigate_no_stack callback_no_stack)
  next
    case (Suc n')
    have IHn: "navigate_to_marker n' ?E s = navigate_to_marker n' E s" for s
      using less.IH[of n'] Suc by blast
    have IHc: "move_base_aruco_callback n' ?E r s = move_base_aruco_callback n' E r' s" for s r r'
      using less.IH[of n'] Suc by blast
    show ?thesis
    proof (cases "is_preempt_requested E (polls s)")
      case True
      then have "is_preempt_requested ?E (polls s)" by simp
      then show ?thesis unfolding Suc
        by (simp add: navigate_preempt callback_preempt True)
    next
      case False
      then have np: "\<not> is_preempt_requested ?E (polls s)" by simp
      have nav: "navigate_to_marker (Suc n') ?E s = navigate_to_marker (Suc n') E s"
        unfolding navigate_unfold[OF np] navigate_unfold[OF False]
        by (simp add: loop_env average_transforms_env IHc[where r' = "move_base_result E _"]
              split: sampling.splits sum.splits prod.splits)
      have cb: "move_base_aruco_callback (Suc n') ?E r s = move_base_aruco_callback (Suc n') E r' s"
      proof (cases "num_tries s = max_tries s")
        case True
        show ?thesis
          unfolding callback_exhausted[OF np True] callback_exhausted[OF False True] ..
      next
        case ne: False
        show ?thesis
          unfolding callback_unfold[OF np ne] callback_unfold[OF False ne]
          by (simp add: rescan_env calculate_diff_env IHn split: sum.splits)
      qed
      show ?thesis unfolding Suc using nav cb by blast
    qed
  qed
qed

lemma execute_env:
  "execute_callback n (E\<lparr>move_base_result := f\<rparr>) g s = execute_callback n E g s"
  unfolding execute_callback_def Let_def
  by (simp add: head_scan_def navigate_callback_env split: sum.splits)

lemma report_success_trace:
  "\<exists>evs. trace (final (report_success out)) = trace (final out) @ evs"
  by (cases out) (simp_all add: report_success_def)

lemma trace_extends:
  "(\<exists>evs. trace (final (navigate_to_marker n E s)) = trace s @ evs)
   \<and> (\<exists>evs. trace (final (move_base_aruco_callback n E r s)) = trace s @ evs)"
proof (induction n arbitrary: s r rule: less_induct)
  case (less n)
  show ?case
  proof (cases n)
    case 0
    then show ?thesis by (simp add: navigate_no_stack callback_no_stack)
  next
    case (Suc n')
    have IHn: "\<exists>evs. trace (final (navigate_to_marker n' E s)) = trace s @ evs" for s
      using less.IH[of n'] Suc by blast
    have IHc: "\<exists>evs. trace (final (move_base_aruco_callback n' E r s)) = trace s @ evs" for s r
      using less.IH[of n'] Suc by blast
    have nav: "\<exists>evs. trace (final (navigate_to_marker (Suc n') E s)) = trace s @ evs"
    proof (cases "is_preempt_requested E (polls s)")
      case True
      then show ?thesis by (simp add: navigate_preempt)
    next
      case False
      from navigate_shape[OF False, of n']
      consider (called) k t where
          "navigate_to_marker (Suc n') E s =
            move_base_aruco_callback n' E (move_base_result E (navs s))
              (send_goal t ((begin_cycle s)\<lparr>lookups := k\<rparr>))"
        | (failed) k where
          "navigate_to_marker (Suc n') E s =
            Returned (lookup_failed ((begin_cycle s)\<lparr>lookups := k\<rparr>))"
        | (raised) k e where
          "navigate_to_marker (Suc n') E s = Raised e ((begin_cycle s)\<lparr>lookups := k\<rparr>)"
        by blast
      then show ?thesis
      proof cases
        case called
        from IHc[of "move_base_result E (navs s)" "send_goal t ((begin_cycle s)\<lparr>lookups := k\<rparr>)"]
        obtain evs where "trace (final (navigate_to_marker (Suc n') E s)) =
            trace (send_goal t ((begin_cycle s)\<lparr>lookups := k\<rparr>)) @ evs"
          unfolding called by blast
        then show ?thesis by simp
      next
        case failed
        then show ?thesis by simp
      next
        case raised
        then show ?thesis by simp
      qed
    qed
    have cb: "\<exists>evs. trace (final (move_base_aruco_callback (Suc n') E r s)) = trace s @ evs"
    proof (cases "is_preempt_requested E (polls s)")
      case True
      then show ?thesis by (simp add: callback_preempt)
    next
      case False
      show ?thesis
      proof (cases "num_tries s = max_tries s")
        case True
        then show ?thesis using False by (simp add: callback_exhausted)
      next
        case ne: False
        let ?s1 = "(rescan E s)\<lparr>lookups := Suc (lookups s)\<rparr>"
        from callback_shape[OF False ne, of n' r]
        consider (notfound) "move_base_aruco_callback (Suc n') E r s =
             Returned (emit SetAborted (publish_feedback msg_not_found ''error'' (rescan E s)))"
          | (failed) "move_base_aruco_callback (Suc n') E r s = Returned (lookup_failed ?s1)"
          | (raised) e where "move_base_aruco_callback (Suc n') E r s = Raised e ?s1"
          | (converged) "move_base_aruco_callback (Suc n') E r s = report_success (Returned ?s1)"
          | (retry) m where "move_base_aruco_callback (Suc n') E r s =
               report_success (navigate_to_marker n' E
                 ((rescan E s)\<lparr>lookups := Suc (lookups s), map_to_aruco := m\<rparr>))"
          by blast
        then show ?thesis
        proof cases
          case notfound
          then show ?thesis by simp
        next
          case failed
          then show ?thesis by simp
        next
          case raised
          then show ?thesis by simp
        next
          case converged
          then show ?thesis by (simp add: report_success_def)
        next
          case retry
          let ?s2 = "(rescan E s)\<lparr>lookups := Suc (lookups s), map_to_aruco := m\<rparr>"
          from IHn[of ?s2] obtain evs where
            e1: "trace (final (navigate_to_marker n' E ?s2)) = trace ?s2 @ evs" by blast
          from report_success_trace[of "navigate_to_marker n' E ?s2"] obtain evs' where
            e2: "trace (final (report_success (navigate_to_marker n' E ?s2))) =
                 trace (final (navigate_to_marker n' E ?s2)) @ evs'" by blast
          show ?thesis unfolding retry e2 e1 by simp
        qed
      qed
    qed
    show ?thesis unfolding Suc using nav cb by blast
  qed
qed

lemma callback_rescans:
  assumes "\<not> is_preempt_requested E (polls s)" "num_tries s \<noteq> max_tries s"
  shows "\<exists>evs. trace (final (move_base_aruco_callback (Suc n) E r s)) =
           trace s @ [Sleep, HeadScanSendGoal (aruco_name s)] @ evs"
proof -
  let ?s1 = "(rescan E s)\<lparr>lookups := Suc (lookups s)\<rparr>"
  from callback_shape[OF assms, of n r]
  consider (notfound) "move_base_aruco_callback (Suc n) E r s =
       Returned (emit SetAborted (publish_feedback msg_not_found ''error'' (rescan E s)))"
    | (failed) "move_base_aruco_callback (Suc n) E r s = Returned (lookup_failed ?s1)"
    | (raised) e where "move_base_aruco_callback (Suc n) E r s = Raised e ?s1"
    | (converged) "move_base_aruco_callback (Suc n) E r s = report_success (Returned ?s1)"
    | (retry) m where "move_base_aruco_callback (Suc n) E r s =
         report_success (navigate_to_marker n E
           ((rescan E s)\<lparr>lookups := Suc (lookups s), map_to_aruco := m\<rparr>))"
    by blast
  then show ?thesis
  proof cases
    case notfound
    then show ?thesis by simp
  next
    case failed
    then show ?thesis by simp
  next
    case raised
    then show ?thesis by simp
  next
    case converged
    then show ?thesis by (simp add: report_success_def)
  next
    case retry
    let ?s2 = "(rescan E s)\<lparr>lookups := Suc (lookups s), map_to_aruco := m\<rparr>"
    from trace_extends[of n E ?s2] obtain evs where
      e1: "trace (final (navigate_to_marker n E ?s2)) = trace ?s2 @ evs" by blast
    from report_success_trace[of "navigate_to_marker n E ?s2"] obtain evs' where
      e2: "trace (final (report_success (navigate_to_marker n E ?s2))) =
           trace (final (navigate_to_marker n E ?s2)) @ evs'" by blast
    show ?thesis unfolding retry e2 e1 by simp
  qed
qed

lemma callback_result_unused:
  "move_base_aruco_callback n E r s = move_base_aruco_callback n E r' s"
proof (cases n)
  case 0
  then show ?thesis by (simp add: callback_no_stack)
next
  case (Suc n')
  show ?thesis
  proof (cases "is_preempt_requested E (polls s)")
    case True
    then show ?thesis unfolding Suc by (simp add: callback_preempt)
  next
    case False
    show ?thesis
    proof (cases "num_tries s = max_tries s")
      case True
      then show ?thesis unfolding Suc using False by (simp add: callback_exhausted)
    next
      case ne: False
      show ?thesis unfolding Suc callback_unfold[OF False ne] ..
    qed
  qed
qed

lemma callback_converged:
  assumes "\<not> is_preempt_requested E (polls s)" and "num_tries s \<noteq> max_tries s"
    and "head_scan_result E (scans s)"
    and "lookup_transform E (lookups s) ''map'' (aruco_name s) = Inr m"
    and "\<not> calculate_diff E (map_to_aruco s) m > 0.075"
  shows "move_base_aruco_callback (Suc n) E r s =
     Returned (emit SetSucceeded (publish_feedback msg_succeeded ''success''
       ((rescan E s)\<lparr>lookups := Suc (lookups s)\<rparr>)))"
  unfolding callback_unfold[OF assms(1,2)] using assms(3-5)
  by (simp add: report_success_def)

section \<open>The claims on averaging and on the convergence check\<close>




text \<open>
  Claim C7. \<^verbatim>\<open>calculate_diff\<close> is the square root of the sum of the squares of the
  differences in \<open>x\<close>, in \<open>y\<close> and in the extracted yaws, the yaws being subtracted as they
  are (no wrapping). With a difference of \<open>(0.1, 0)\<close> in translation and none in yaw the
  result is \<open>0.1\<close>, above the threshold \<open>0.075\<close> of \<^verbatim>\<open>move_base_aruco_callback\<close>; with
  \<open>(0.05, 0)\<close> it is \<open>0.05\<close>, not above it.
\<close>

theorem calculate_diff_formula:
  "calculate_diff E p q =
     sqrt ((v_x (translation (transform p)) - v_x (translation (transform q)))\<^sup>2
         + (v_y (translation (transform p)) - v_y (translation (transform q)))\<^sup>2
         + (snd (snd (euler_from_quaternion E (rotation (transform p))))
            - snd (snd (euler_from_quaternion E (rotation (transform q)))))\<^sup>2)
   \<and> (v_x (translation (transform p)) - v_x (translation (transform q)) = 0.1
        \<and> v_y (translation (transform p)) - v_y (translation (transform q)) = 0
        \<and> snd (snd (euler_from_quaternion E (rotation (transform p))))
            - snd (snd (euler_from_quaternion E (rotation (transform q)))) = 0
      \<longrightarrow> calculate_diff E p q = 0.1 \<and> calculate_diff E p q > 0.075)
   \<and> (v_x (translation (transform p)) - v_x (translation (transform q)) = 0.05
        \<and> v_y (translation (transform p)) - v_y (translation (transform q)) = 0
        \<and> snd (snd (euler_from_quaternion E (rotation (transform p))))
            - snd (snd (euler_from_quaternion E (rotation (transform q)))) = 0
      \<longrightarrow> calculate_diff E p q = 0.05 \<and> \<not> calculate_diff E p q > 0.075)"
  by (simp add: calculate_diff_def Let_def)

theorem calculate_diff_formula_witness:
  "calculate_diff test_env (sample 0.1 0 0) (sample 0 0 0) = 0.1
   \<and> calculate_diff test_env (sample 0.1 0 0) (sample 0 0 0) > 0.075
   \<and> calculate_diff test_env (sample 0.05 0 0) (sample 0 0 0) = 0.05
   \<and> \<not> calculate_diff test_env (sample 0.05 0 0) (sample 0 0 0) > 0.075"
  using calculate_diff_formula[of test_env "sample 0.1 0 0" "sample 0 0 0"]
        calculate_diff_formula[of test_env "sample 0.05 0 0" "sample 0 0 0"]
  by (simp add: sample_def test_env_def)




section \<open>The claims on the controller\<close>

text \<open>
  Claim C2 fails on the code: the two lookups of \<^verbatim>\<open>execute_callback\<close>, made right after a
  successful scan, stand outside any \<^verbatim>\<open>try\<close>. Whatever either of them raises, also the three
  classes that \<^verbatim>\<open>navigate_to_marker\<close> and \<^verbatim>\<open>move_base_aruco_callback\<close> catch, leaves
  \<^verbatim>\<open>execute_callback\<close> as an exception; the trace then holds the scan and its feedback
  only: no error feedback and no \<^verbatim>\<open>set_aborted\<close>.
\<close>

theorem execute_callback_lookup_uncaught:
  "(\<not> is_preempt_requested E (polls s) \<and> head_scan_result E (scans s) \<and>
    lookup_transform E (lookups s) ''base_link'' (goal_name g) = Inl e
    \<longrightarrow> execute_callback n E g s = Raised e ((scanned E g s)\<lparr>lookups := Suc (lookups s)\<rparr>))
   \<and> (\<not> is_preempt_requested E (polls s) \<and> head_scan_result E (scans s) \<and>
    lookup_transform E (lookups s) ''base_link'' (goal_name g) = Inr m \<and>
    lookup_transform E (Suc (lookups s)) ''map'' (goal_name g) = Inl e
    \<longrightarrow> execute_callback n E g s =
          Raised e ((scanned E g s)\<lparr>lookups := Suc (Suc (lookups s)), marker := m\<rparr>))
   \<and> trace (scanned E g s) = trace s @
        [PublishFeedback ''Scanning for marker...'' ''info'', HeadScanSendGoal (goal_name g)]"
  by (simp add: execute_first_lookup_raises execute_second_lookup_raises)

theorem execute_callback_lookup_uncaught_witness:
  "execute_callback 6 (test_env\<lparr>lookup_transform := \<lambda>k target source. Inl LookupException\<rparr>)
     test_goal init =
   Raised LookupException
     ((scanned (test_env\<lparr>lookup_transform := \<lambda>k target source. Inl LookupException\<rparr>) test_goal init)
        \<lparr>lookups := Suc (lookups init)\<rparr>)
   \<and> execute_callback 6
       (test_env\<lparr>lookup_transform := \<lambda>k target source.
          if k = 0 then Inr (sample 0 0 0) else Inl ExtrapolationException\<rparr>)
       test_goal init =
     Raised ExtrapolationException
       ((scanned (test_env\<lparr>lookup_transform := \<lambda>k target source.
            if k = 0 then Inr (sample 0 0 0) else Inl ExtrapolationException\<rparr>) test_goal init)
          \<lparr>lookups := Suc (Suc (lookups init)), marker := sample 0 0 0\<rparr>)
   \<and> trace (scanned (test_env\<lparr>lookup_transform := \<lambda>k target source. Inl LookupException\<rparr>)
        test_goal init) =
       [PublishFeedback ''Scanning for marker...'' ''info'', HeadScanSendGoal ''dock'']"
  using execute_callback_lookup_uncaught[where
          E = "test_env\<lparr>lookup_transform := \<lambda>k target source. Inl LookupException\<rparr>"
          and s = init and g = test_goal and e = LookupException and n = 6]
        execute_callback_lookup_uncaught[where
          E = "test_env\<lparr>lookup_transform := \<lambda>k target source.
             if k = 0 then Inr (sample 0 0 0) else Inl ExtrapolationException\<rparr>"
          and s = init and g = test_goal and e = ExtrapolationException and m = "sample 0 0 0" and n = 6]
  by (simp add: test_env_def test_goal_def init_def)

text \<open>
  Claim C1 fails on the code: \<^verbatim>\<open>move_base_aruco_callback\<close> has no \<^verbatim>\<open>return\<close> (and no
  \<^verbatim>\<open>else\<close>) after the nested \<^verbatim>\<open>self.navigate_to_marker()\<close> of its branch
  \<^verbatim>\<open>diff > 0.075\<close>. When the difference exceeds the threshold it does adopt the new pose
  and start another cycle, but once that cycle has returned, however it ended, the same
  evaluation goes on to publish \<open>Navigation succeeded!\<close> and to call \<^verbatim>\<open>set_succeeded\<close>.
  In the example the nested cycle aborts on a failed lookup, and the evaluation reports
  success right after the abort.
\<close>

theorem success_reported_after_retry:
  assumes "\<not> is_preempt_requested E (polls s)" and "num_tries s \<noteq> max_tries s"
    and "head_scan_result E (scans s)"
    and "lookup_transform E (lookups s) ''map'' (aruco_name s) = Inr m"
    and "calculate_diff E (map_to_aruco s) m > 0.075"
    and "navigate_to_marker n E ((rescan E s)\<lparr>lookups := Suc (lookups s), map_to_aruco := m\<rparr>) =
           Returned s4"
  shows "move_base_aruco_callback (Suc n) E r s =
           Returned (emit SetSucceeded (publish_feedback ''Navigation succeeded!'' ''success'' s4))"
  unfolding callback_unfold[OF assms(1,2)] using assms(3-6)
  by (simp add: report_success_def)

theorem success_reported_after_retry_witness:
  "move_base_aruco_callback 2 (failing_env 1 LookupException) 4
       (init\<lparr>num_tries := 1, lookups := 0, map_to_aruco := test_pose 7 ''map'' []\<rparr>) =
     Returned (emit SetSucceeded (publish_feedback ''Navigation succeeded!'' ''success''
       (lookup_failed ((begin_cycle
          ((rescan (failing_env 1 LookupException)
              (init\<lparr>num_tries := 1, lookups := 0, map_to_aruco := test_pose 7 ''map'' []\<rparr>))
             \<lparr>lookups := 1, map_to_aruco := test_pose 0 ''map'' []\<rparr>))
          \<lparr>lookups := 2\<rparr>))))
   \<and> server_calls (trace (emit SetSucceeded (publish_feedback ''Navigation succeeded!'' ''success''
       (lookup_failed ((begin_cycle
          ((rescan (failing_env 1 LookupException)
              (init\<lparr>num_tries := 1, lookups := 0, map_to_aruco := test_pose 7 ''map'' []\<rparr>))
             \<lparr>lookups := 1, map_to_aruco := test_pose 0 ''map'' []\<rparr>))
          \<lparr>lookups := 2\<rparr>))))) =
     [PublishFeedback ''Navigating to marker...'' ''info'',
      PublishFeedback ''Navigation failed, please try again.'' ''error'', SetAborted,
      PublishFeedback ''Navigation succeeded!'' ''success'', SetSucceeded]"
proof -
  let ?E = "failing_env 1 LookupException"
  let ?s = "init\<lparr>num_tries := 1, lookups := 0, map_to_aruco := test_pose 7 ''map'' []\<rparr>"
  let ?s2 = "(rescan ?E ?s)\<lparr>lookups := 1, map_to_aruco := test_pose 0 ''map'' []\<rparr>"
  have i: "max_tries init = 3" "aruco_name init = []" "polls init = 0" "scans init = 0"
    "trace init = []"
    by (simp_all add: init_def)
  have d: "calculate_diff ?E (test_pose 7 ''map'' []) (test_pose 0 ''map'' []) > 0.075"
    by (simp add: calculate_diff_def test_pose_def failing_env_def test_env_def)
  have inner: "navigate_to_marker 1 ?E ?s2 = Returned (lookup_failed ((begin_cycle ?s2)\<lparr>lookups := 2\<rparr>))"
    using navigate_sampling_failed[where E = ?E and s = ?s2 and k = 0 and e = LookupException
        and n = 0 and w = "\<lambda>i. test_pose i ''map'' ''relative_pose''"]
    by (simp add: caught_def numeral_2_eq_2)
  have "move_base_aruco_callback 2 ?E 4 ?s =
     Returned (emit SetSucceeded (publish_feedback ''Navigation succeeded!'' ''success''
       (lookup_failed ((begin_cycle ?s2)\<lparr>lookups := 2\<rparr>))))"
    using success_reported_after_retry[where E = ?E and s = ?s and n = 1 and r = 4
        and m = "test_pose 0 ''map'' []" and ?s4.0 = "lookup_failed ((begin_cycle ?s2)\<lparr>lookups := 2\<rparr>)"]
      d inner
    by (simp add: i numeral_2_eq_2)
  then show ?thesis by (simp add: i)
qed

text \<open>
  Claim C4. When no cancellation is requested, every scan finds the marker, every lookup
  returns and both differences that the request computes exceed \<open>0.075\<close>, a request
  returns after exactly 3 navigation goals with the attempt counter at 0; the first
  terminal state it sets is \<^verbatim>\<open>set_aborted\<close>, right after the feedback
  \<open>Navigation failed, please try again.\<close> An action server takes the state of a goal from
  the first such call. The full list of the calls on the server is part of the statement:
  after the abort, the two evaluations that were waiting for their nested cycle each
  publish \<open>Navigation succeeded!\<close> and call \<^verbatim>\<open>set_succeeded\<close>.
  The two differences are those between the world poses of the marker returned by the
  lookups number \<open>l + 1\<close> and \<open>l + 12\<close>, and \<open>l + 12\<close> and \<open>l + 23\<close>, where \<open>l\<close> lookups
  were made before the request: the second lookup of \<^verbatim>\<open>execute_callback\<close> and the lookups
  after the first and the second re-scan, each cycle making 10 lookups of its own in
  between. Nothing is assumed of any other pair of poses: in the example the marker
  alternates between two places, so that the first and the third of these poses are equal.
\<close>

theorem never_converging_request_aborts:
  assumes "\<forall>k. \<not> is_preempt_requested E k" and "\<forall>k. head_scan_result E k"
    and "\<forall>k a b. lookup_transform E k a b = Inr (w k a b)"
    and "calculate_diff E (w (lookups s + 1) ''map'' (goal_name g))
           (w (lookups s + 12) ''map'' (goal_name g)) > 0.075"
    and "calculate_diff E (w (lookups s + 12) ''map'' (goal_name g))
           (w (lookups s + 23) ''map'' (goal_name g)) > 0.075"
    and "max_tries s = 3" and "6 \<le> n"
  shows "\<exists>s' evs. execute_callback n E g s = Returned s' \<and> trace s' = trace s @ evs \<and>
      num_tries s' = 0 \<and> attempts evs = 3 \<and> List.find is_terminal evs = Some SetAborted \<and>
      server_calls evs =
        [PublishFeedback ''Scanning for marker...'' ''info'',
         PublishFeedback ''Navigating to marker...'' ''info'',
         PublishFeedback ''Navigating to marker...'' ''info'',
         PublishFeedback ''Navigating to marker...'' ''info'',
         PublishFeedback ''Navigation failed, please try again.'' ''error'', SetAborted,
         PublishFeedback ''Navigation succeeded!'' ''success'', SetSucceeded,
         PublishFeedback ''Navigation succeeded!'' ''success'', SetSucceeded]"
proof -
  have H: "never_converges E w (goal_name g) (lookups s)"
    unfolding never_converges_def cooperative_def using assms(1-5) by blast
  from execute_never_converges[OF H assms(6,7)]
  obtain s' evs where r: "execute_callback n E g s = Returned s'" "num_tries s' = 0"
    "trace s' = trace s @ evs" "attempts evs = 3"
    and sc: "server_calls evs =
        [PublishFeedback ''Scanning for marker...'' ''info'',
         fb_navigating, fb_navigating, fb_navigating, fb_failed, SetAborted,
         fb_succeeded, SetSucceeded, fb_succeeded, SetSucceeded]"
    unfolding run_ends_def by blast
  have "List.find is_terminal (server_calls evs) = Some SetAborted"
    unfolding sc by simp
  then have "List.find is_terminal evs = Some SetAborted"
    by (simp only: find_server_calls)
  with r sc show ?thesis by blast
qed

theorem never_converging_request_aborts_witness:
  "\<exists>s' evs. execute_callback 6 swinging_env test_goal init = Returned s' \<and> trace s' = evs \<and>
      num_tries s' = 0 \<and> attempts evs = 3 \<and> List.find is_terminal evs = Some SetAborted \<and>
      server_calls evs =
        [PublishFeedback ''Scanning for marker...'' ''info'',
         PublishFeedback ''Navigating to marker...'' ''info'',
         PublishFeedback ''Navigating to marker...'' ''info'',
         PublishFeedback ''Navigating to marker...'' ''info'',
         PublishFeedback ''Navigation failed, please try again.'' ''error'', SetAborted,
         PublishFeedback ''Navigation succeeded!'' ''success'', SetSucceeded,
         PublishFeedback ''Navigation succeeded!'' ''success'', SetSucceeded]"
proof -
  have i: "max_tries init = 3" "trace init = []" "lookups init = 0" by (simp_all add: init_def)
  show ?thesis
    using never_converging_request_aborts[where E = swinging_env and s = init and g = test_goal
        and n = 6 and w = "\<lambda>k. test_pose (k mod 2)"]
    by (simp add: i swinging_env_diff)
qed

text \<open>
  Claim C10. For a request on a server with \<open>max_tries = 3\<close>, whatever the environment does
  and whatever the counter was before: a call stack of 6 frames (3 for each of the two
  functions) suffices, the counter ends between 0 and 3, at most 3 navigation cycles are
  started, and the counter equals the number of cycles started unless it was reset to 0.
  The same holds for \<^verbatim>\<open>navigate_to_marker\<close> entered with a counter below 3 and for
  \<^verbatim>\<open>move_base_aruco_callback\<close> entered with a counter of at most 3, which are the states in
  which the two functions call each other. Once the counter equals \<open>max_tries\<close>,
  \<^verbatim>\<open>move_base_aruco_callback\<close> starts no cycle and sends no navigation goal. The counter
  is 0 when \<^verbatim>\<open>execute_callback\<close> has taken the goal and scanned, and each cycle that
  reaches its sampling loop has added exactly one to it.
\<close>

theorem num_tries_bounded:
  "(max_tries s = 3 \<and> 6 \<le> n \<longrightarrow>
      \<not> is_exhausted (execute_callback n E g s)
      \<and> max_tries (final (execute_callback n E g s)) = 3
      \<and> 0 \<le> num_tries (final (execute_callback n E g s))
      \<and> num_tries (final (execute_callback n E g s)) \<le> 3
      \<and> (\<exists>j. cycles (trace (final (execute_callback n E g s))) = cycles (trace s) + j \<and> j \<le> 3
            \<and> (num_tries (final (execute_callback n E g s)) = int j
                 \<or> num_tries (final (execute_callback n E g s)) = 0)))
   \<and> (max_tries s = 3 \<and> 0 \<le> num_tries s \<and> num_tries s < 3 \<and> 2 * nat (3 - num_tries s) \<le> n \<longrightarrow>
      \<not> is_exhausted (navigate_to_marker n E s)
      \<and> 0 \<le> num_tries (final (navigate_to_marker n E s))
      \<and> num_tries (final (navigate_to_marker n E s)) \<le> 3
      \<and> (\<exists>j. cycles (trace (final (navigate_to_marker n E s))) = cycles (trace s) + j
            \<and> int j \<le> 3 - num_tries s
            \<and> (num_tries (final (navigate_to_marker n E s)) = num_tries s + int j
                 \<or> num_tries (final (navigate_to_marker n E s)) = 0)))
   \<and> (max_tries s = 3 \<and> 0 \<le> num_tries s \<and> num_tries s \<le> 3 \<and> 2 * nat (3 - num_tries s) + 1 \<le> n \<longrightarrow>
      \<not> is_exhausted (move_base_aruco_callback n E r s)
      \<and> 0 \<le> num_tries (final (move_base_aruco_callback n E r s))
      \<and> num_tries (final (move_base_aruco_callback n E r s)) \<le> 3
      \<and> (\<exists>j. cycles (trace (final (move_base_aruco_callback n E r s))) = cycles (trace s) + j
            \<and> int j \<le> 3 - num_tries s
            \<and> (num_tries (final (move_base_aruco_callback n E r s)) = num_tries s + int j
                 \<or> num_tries (final (move_base_aruco_callback n E r s)) = 0)))
   \<and> (num_tries s = max_tries s \<longrightarrow>
      cycles (trace (final (move_base_aruco_callback (Suc n) E r s))) = cycles (trace s)
      \<and> attempts (trace (final (move_base_aruco_callback (Suc n) E r s))) = attempts (trace s))
   \<and> num_tries (scanned E g s) = 0
   \<and> num_tries (begin_cycle s) = num_tries s + 1
   \<and> cycles (trace (begin_cycle s)) = cycles (trace s) + 1"
proof (intro conjI impI)
  assume a: "max_tries s = 3 \<and> 6 \<le> n"
  then have b: "bounded (scanned E g s) (execute_callback n E g s)"
    using bounded_execute by blast
  from b show "\<not> is_exhausted (execute_callback n E g s)"
    "max_tries (final (execute_callback n E g s)) = 3"
    "0 \<le> num_tries (final (execute_callback n E g s))"
    "num_tries (final (execute_callback n E g s)) \<le> 3"
    unfolding bounded_def by blast+
  from b show "\<exists>j. cycles (trace (final (execute_callback n E g s))) = cycles (trace s) + j \<and> j \<le> 3
            \<and> (num_tries (final (execute_callback n E g s)) = int j
                 \<or> num_tries (final (execute_callback n E g s)) = 0)"
    unfolding bounded_def by auto
next
  assume a: "max_tries s = 3 \<and> 0 \<le> num_tries s \<and> num_tries s < 3 \<and> 2 * nat (3 - num_tries s) \<le> n"
  then have b: "bounded s (navigate_to_marker n E s)"
    using bounded_navigate_callback[of s n E] by blast
  from b show "\<not> is_exhausted (navigate_to_marker n E s)"
    "0 \<le> num_tries (final (navigate_to_marker n E s))"
    "num_tries (final (navigate_to_marker n E s)) \<le> 3"
    "\<exists>j. cycles (trace (final (navigate_to_marker n E s))) = cycles (trace s) + j
            \<and> int j \<le> 3 - num_tries s
            \<and> (num_tries (final (navigate_to_marker n E s)) = num_tries s + int j
                 \<or> num_tries (final (navigate_to_marker n E s)) = 0)"
    unfolding bounded_def by blast+
next
  assume a: "max_tries s = 3 \<and> 0 \<le> num_tries s \<and> num_tries s \<le> 3 \<and> 2 * nat (3 - num_tries s) + 1 \<le> n"
  then have b: "bounded s (move_base_aruco_callback n E r s)"
    using bounded_navigate_callback[of s n E r] by blast
  from b show "\<not> is_exhausted (move_base_aruco_callback n E r s)"
    "0 \<le> num_tries (final (move_base_aruco_callback n E r s))"
    "num_tries (final (move_base_aruco_callback n E r s)) \<le> 3"
    "\<exists>j. cycles (trace (final (move_base_aruco_callback n E r s))) = cycles (trace s) + j
            \<and> int j \<le> 3 - num_tries s
            \<and> (num_tries (final (move_base_aruco_callback n E r s)) = num_tries s + int j
                 \<or> num_tries (final (move_base_aruco_callback n E r s)) = 0)"
    unfolding bounded_def by blast+
next
  assume a: "num_tries s = max_tries s"
  show "cycles (trace (final (move_base_aruco_callback (Suc n) E r s))) = cycles (trace s)"
    by (cases "is_preempt_requested E (polls s)")
       (simp_all add: callback_preempt callback_exhausted a)
  show "attempts (trace (final (move_base_aruco_callback (Suc n) E r s))) = attempts (trace s)"
    by (cases "is_preempt_requested E (polls s)")
       (simp_all add: callback_preempt callback_exhausted a)
next
  show "num_tries (scanned E g s) = 0" by simp
  show "num_tries (begin_cycle s) = num_tries s + 1" by simp
  show "cycles (trace (begin_cycle s)) = cycles (trace s) + 1" by simp
qed

theorem num_tries_bounded_witness:
  "\<not> is_exhausted (execute_callback 6 test_env test_goal init)
   \<and> 0 \<le> num_tries (final (execute_callback 6 test_env test_goal init))
   \<and> num_tries (final (execute_callback 6 test_env test_goal init)) \<le> 3
   \<and> \<not> is_exhausted (navigate_to_marker 6 test_env init)
   \<and> num_tries (final (navigate_to_marker 6 test_env init)) \<le> 3
   \<and> \<not> is_exhausted (move_base_aruco_callback 5 test_env 4 (init\<lparr>num_tries := 1\<rparr>))
   \<and> num_tries (final (move_base_aruco_callback 5 test_env 4 (init\<lparr>num_tries := 1\<rparr>))) \<le> 3
   \<and> cycles (trace (final (move_base_aruco_callback 1 test_env 4 (init\<lparr>num_tries := 3\<rparr>)))) = 0"
  using num_tries_bounded[of init 6 test_env test_goal 4]
        num_tries_bounded[of "init\<lparr>num_tries := 1\<rparr>" 5 test_env test_goal 4]
        num_tries_bounded[of "init\<lparr>num_tries := 3\<rparr>" 0 test_env test_goal 4]
  by (simp add: init_def)

text \<open>
  Claim C5, as amended. The navigation outcome is never read: \<^verbatim>\<open>move_base_aruco_callback\<close>
  does the same for any two values of \<^verbatim>\<open>result\<close>, and a request runs the same whatever the
  navigation collaborator answers. After a navigation completion at which no cancellation
  is observed and the counter differs from \<open>max_tries\<close>, the next events are the pause and
  the head scan; and when that scan finds the marker, its world pose resolves and the
  drift check passes, the evaluation reports success.
\<close>

theorem navigation_outcome_ignored:
  "move_base_aruco_callback n E r s = move_base_aruco_callback n E r' s
   \<and> execute_callback n (E\<lparr>move_base_result := f\<rparr>) g s = execute_callback n E g s
   \<and> (\<not> is_preempt_requested E (polls s) \<and> num_tries s \<noteq> max_tries s \<longrightarrow>
        (\<exists>evs. trace (final (move_base_aruco_callback (Suc n) E r s)) =
           trace s @ [Sleep, HeadScanSendGoal (aruco_name s)] @ evs))
   \<and> (\<not> is_preempt_requested E (polls s) \<and> num_tries s \<noteq> max_tries s
        \<and> head_scan_result E (scans s)
        \<and> lookup_transform E (lookups s) ''map'' (aruco_name s) = Inr m
        \<and> \<not> calculate_diff E (map_to_aruco s) m > 0.075 \<longrightarrow>
        move_base_aruco_callback (Suc n) E r s =
          Returned (emit SetSucceeded (publish_feedback ''Navigation succeeded!'' ''success''
            ((rescan E s)\<lparr>lookups := Suc (lookups s)\<rparr>))))"
proof (intro conjI impI)
  show "move_base_aruco_callback n E r s = move_base_aruco_callback n E r' s"
    by (rule callback_result_unused)
  show "execute_callback n (E\<lparr>move_base_result := f\<rparr>) g s = execute_callback n E g s"
    by (rule execute_env)
next
  assume "\<not> is_preempt_requested E (polls s) \<and> num_tries s \<noteq> max_tries s"
  then show "\<exists>evs. trace (final (move_base_aruco_callback (Suc n) E r s)) =
           trace s @ [Sleep, HeadScanSendGoal (aruco_name s)] @ evs"
    using callback_rescans by blast
next
  assume "\<not> is_preempt_requested E (polls s) \<and> num_tries s \<noteq> max_tries s
        \<and> head_scan_result E (scans s)
        \<and> lookup_transform E (lookups s) ''map'' (aruco_name s) = Inr m
        \<and> \<not> calculate_diff E (map_to_aruco s) m > 0.075"
  then show "move_base_aruco_callback (Suc n) E r s =
          Returned (emit SetSucceeded (publish_feedback ''Navigation succeeded!'' ''success''
            ((rescan E s)\<lparr>lookups := Suc (lookups s)\<rparr>)))"
    using callback_converged by blast
qed

theorem navigation_outcome_ignored_witness:
  "move_base_aruco_callback 1 steady_env 4
       (init\<lparr>num_tries := 1, map_to_aruco := test_pose 0 ''map'' []\<rparr>) =
     Returned (emit SetSucceeded (publish_feedback ''Navigation succeeded!'' ''success''
       ((rescan steady_env (init\<lparr>num_tries := 1, map_to_aruco := test_pose 0 ''map'' []\<rparr>))
          \<lparr>lookups := 1\<rparr>)))
   \<and> trace (emit SetSucceeded (publish_feedback ''Navigation succeeded!'' ''success''
       ((rescan steady_env (init\<lparr>num_tries := 1, map_to_aruco := test_pose 0 ''map'' []\<rparr>))
          \<lparr>lookups := 1\<rparr>))) =
     [Sleep, HeadScanSendGoal [], PublishFeedback ''Navigation succeeded!'' ''success'', SetSucceeded]"
proof -
  let ?s = "init\<lparr>num_tries := 1, map_to_aruco := test_pose 0 ''map'' []\<rparr>"
  have i: "max_tries init = 3" "aruco_name init = []" "polls init = 0" "scans init = 0"
    "trace init = []" "lookups init = 0"
    by (simp_all add: init_def)
  have d: "\<not> calculate_diff steady_env (test_pose 0 ''map'' []) (test_pose 0 ''map'' []) > 0.075"
    by (simp add: calculate_diff_def)
  show ?thesis
    using navigation_outcome_ignored[where E = steady_env and s = ?s and n = 0 and r = 4
        and m = "test_pose 0 ''map'' []"] d
    by (simp add: i steady_env_def)
qed

text \<open>
  The claim as stated (a re-scan after every navigation completion) fails on the request
  that never converges: it sends 3 navigation goals and 3 head scans, the first of which
  is the initial scan of \<^verbatim>\<open>execute_callback\<close>; the third navigation completion meets the
  counter at \<open>max_tries\<close> and is followed by the abort, not by a scan.
\<close>

theorem third_navigation_not_rescanned:
  "attempts (trace (final (execute_callback 6 test_env test_goal init))) = 3
   \<and> head_scans (trace (final (execute_callback 6 test_env test_goal init))) = 3"
proof -
  have "max_tries init = 3" "trace init = []" by (simp_all add: init_def)
  with execute_never_converges[where E = test_env and w = test_pose and g = test_goal
      and s = init and n = 6, OF test_env_never_converges]
  show ?thesis unfolding run_ends_def by auto
qed

text \<open>
  Claim C6. When none of the 10 lookups of the sampling loop fails, the loop ends with
  exactly their 10 results, in order, and it is this list that is averaged for the
  navigation goal. When the first \<open>k < 10\<close> lookups succeed and the next one raises one of
  the three classes caught, \<^verbatim>\<open>navigate_to_marker\<close> returns at once: it has published
  \<open>Navigation failed, please try again.\<close> and called \<^verbatim>\<open>set_aborted\<close>, it has made
  \<open>k + 1\<close> lookups and no more, and it has sent no navigation goal.
\<close>

theorem sampling_collects_ten_or_aborts:
  "(\<not> is_preempt_requested E (polls s)
    \<and> (\<forall>i<10. lookup_transform E (lookups s + i) ''map'' ''relative_pose'' = Inr (w (lookups s + i)))
    \<longrightarrow> navigate_to_marker_loop E [] (begin_cycle s) =
          Sampled (map w [lookups s..<lookups s + 10]) ((begin_cycle s)\<lparr>lookups := lookups s + 10\<rparr>)
        \<and> length (map w [lookups s..<lookups s + 10]) = 10
        \<and> (\<exists>h. average_transforms E [0..<10] (\<lambda>r. map w [lookups s..<lookups s + 10] ! r) = Inr (0, h)
              \<and> navigate_to_marker (Suc n) E s =
                  move_base_aruco_callback n E (move_base_result E (navs s))
                    (send_goal (h 0) ((begin_cycle s)\<lparr>lookups := lookups s + 10\<rparr>))))
   \<and> (\<not> is_preempt_requested E (polls s) \<and> k < 10
    \<and> (\<forall>i<k. lookup_transform E (lookups s + i) ''map'' ''relative_pose'' = Inr (w (lookups s + i)))
    \<and> lookup_transform E (lookups s + k) ''map'' ''relative_pose'' = Inl e \<and> caught e
    \<longrightarrow> navigate_to_marker (Suc n) E s =
          Returned (lookup_failed ((begin_cycle s)\<lparr>lookups := Suc (lookups s + k)\<rparr>))
        \<and> trace (lookup_failed ((begin_cycle s)\<lparr>lookups := Suc (lookups s + k)\<rparr>)) =
            trace s @
            [SendTransform (broadcast_tf (relative_pose s) ''relative_pose'' (aruco_name s)),
             PublishFeedback ''Navigating to marker...'' ''info'',
             LogInfo ''Could not publish pose to tf'',
             PublishFeedback ''Navigation failed, please try again.'' ''error'',
             SetAborted]
        \<and> lookups (lookup_failed ((begin_cycle s)\<lparr>lookups := Suc (lookups s + k)\<rparr>)) =
            lookups s + k + 1
        \<and> navs (lookup_failed ((begin_cycle s)\<lparr>lookups := Suc (lookups s + k)\<rparr>)) = navs s)"
proof (intro conjI impI)
  assume a: "\<not> is_preempt_requested E (polls s)
    \<and> (\<forall>i<10. lookup_transform E (lookups s + i) ''map'' ''relative_pose'' = Inr (w (lookups s + i)))"
  show "navigate_to_marker_loop E [] (begin_cycle s) =
          Sampled (map w [lookups s..<lookups s + 10]) ((begin_cycle s)\<lparr>lookups := lookups s + 10\<rparr>)"
    using loop_ok[of "[]" E "begin_cycle s" w] a by simp
  show "length (map w [lookups s..<lookups s + 10]) = 10" by simp
  from a have np: "\<not> is_preempt_requested E (polls s)"
    and lk: "\<forall>i<10. lookup_transform E (lookups s + i) ''map'' ''relative_pose'' = Inr (w (lookups s + i))"
    by blast+
  show "\<exists>h. average_transforms E [0..<10] (\<lambda>r. map w [lookups s..<lookups s + 10] ! r) = Inr (0, h)
              \<and> navigate_to_marker (Suc n) E s =
                  move_base_aruco_callback n E (move_base_result E (navs s))
                    (send_goal (h 0) ((begin_cycle s)\<lparr>lookups := lookups s + 10\<rparr>))"
    by (rule navigate_sampled[OF np lk])
next
  assume a: "\<not> is_preempt_requested E (polls s) \<and> k < 10
    \<and> (\<forall>i<k. lookup_transform E (lookups s + i) ''map'' ''relative_pose'' = Inr (w (lookups s + i)))
    \<and> lookup_transform E (lookups s + k) ''map'' ''relative_pose'' = Inl e \<and> caught e"
  then have np: "\<not> is_preempt_requested E (polls s)" and k: "k < 10"
    and lk: "\<forall>i<k. lookup_transform E (lookups s + i) ''map'' ''relative_pose'' = Inr (w (lookups s + i))"
    and fl: "lookup_transform E (lookups s + k) ''map'' ''relative_pose'' = Inl e" and c: "caught e"
    by blast+
  show "navigate_to_marker (Suc n) E s =
          Returned (lookup_failed ((begin_cycle s)\<lparr>lookups := Suc (lookups s + k)\<rparr>))"
    using navigate_sampling_failed[OF np k lk fl, of n] c by simp
  show "trace (lookup_failed ((begin_cycle s)\<lparr>lookups := Suc (lookups s + k)\<rparr>)) =
            trace s @
            [SendTransform (broadcast_tf (relative_pose s) ''relative_pose'' (aruco_name s)),
             PublishFeedback ''Navigating to marker...'' ''info'',
             LogInfo ''Could not publish pose to tf'',
             PublishFeedback ''Navigation failed, please try again.'' ''error'',
             SetAborted]"
    by simp
  show "lookups (lookup_failed ((begin_cycle s)\<lparr>lookups := Suc (lookups s + k)\<rparr>)) = lookups s + k + 1"
    by simp
  show "navs (lookup_failed ((begin_cycle s)\<lparr>lookups := Suc (lookups s + k)\<rparr>)) = navs s"
    by simp
qed

theorem sampling_collects_ten_or_aborts_witness:
  "navigate_to_marker_loop test_env [] (begin_cycle init) =
      Sampled (map (\<lambda>i. test_pose i ''map'' ''relative_pose'') [0..<10])
        ((begin_cycle init)\<lparr>lookups := 10\<rparr>)
   \<and> navigate_to_marker 1 (failing_env 4 ConnectivityException) init =
       Returned (lookup_failed ((begin_cycle init)\<lparr>lookups := 5\<rparr>))
   \<and> trace (lookup_failed ((begin_cycle init)\<lparr>lookups := 5\<rparr>)) =
        [SendTransform (broadcast_tf (relative_pose init) ''relative_pose'' (aruco_name init)),
         PublishFeedback ''Navigating to marker...'' ''info'',
         LogInfo ''Could not publish pose to tf'',
         PublishFeedback ''Navigation failed, please try again.'' ''error'',
         SetAborted]"
proof -
  have l0: "lookups init = 0" "trace init = []" "polls init = 0" by (simp_all add: init_def)
  show ?thesis
    using sampling_collects_ten_or_aborts[where E = test_env and s = init
            and w = "\<lambda>i. test_pose i ''map'' ''relative_pose''" and n = 0]
          sampling_collects_ten_or_aborts[where E = "failing_env 4 ConnectivityException" and s = init
            and w = "\<lambda>i. test_pose i ''map'' ''relative_pose''" and n = 0 and k = 4
            and e = ConnectivityException]
    by (simp add: l0 caught_def)
qed

text \<open>
  Claim C9 fails on the code: no poll of \<^verbatim>\<open>is_preempt_requested\<close> follows the wait on the
  re-scan in \<^verbatim>\<open>move_base_aruco_callback\<close>. The cancel-all requests to both collaborators
  and \<^verbatim>\<open>set_preempted\<close> are the body of \<^verbatim>\<open>cancel_goals\<close>, the handler the node registers
  for preempt requests. The thread of the request polls when the initial scan has returned
  (\<^verbatim>\<open>execute_callback\<close>) and when the navigation has returned (first statement of
  \<^verbatim>\<open>move_base_aruco_callback\<close>), and a poll that sees a cancellation is followed by
  \<open>Aruco navigation cancelled!\<close> and the return. But when that poll of
  \<^verbatim>\<open>move_base_aruco_callback\<close> has seen none, the function waits on the re-scan and then,
  unless it starts another cycle, reaches its terminal report (marker not found, lookup
  failed, or success) having made that one poll only; nothing is assumed of what a later
  poll would answer. In the example a cancellation is requested after the third poll of
  the request, that is during or after the wait on the re-scan: the request makes 3 polls,
  a fourth would see the cancellation, and its calls on the server end with
  \<open>Navigation succeeded!\<close> and \<^verbatim>\<open>set_succeeded\<close>.
\<close>

theorem rescan_wait_not_polled:
  "trace (cancel_goals s) = trace s @
     [Print ''cancel goals'', HeadScanCancelAll, MoveBaseCancelAll, SetPreempted]
   \<and> (is_preempt_requested E (polls s) \<longrightarrow>
        (\<exists>s'. execute_callback n E g s = Returned s' \<and> polls s' = Suc (polls s) \<and>
           trace s' = trace s @
             [PublishFeedback ''Scanning for marker...'' ''info'', HeadScanSendGoal (goal_name g),
              Print ''preempt callback'', PublishFeedback ''Aruco navigation cancelled!'' ''error''])
        \<and> (\<exists>s'. move_base_aruco_callback (Suc n) E r s = Returned s' \<and> polls s' = Suc (polls s) \<and>
           trace s' = trace s @
             [Print ''preempt callback'', PublishFeedback ''Aruco navigation cancelled!'' ''error'']))
   \<and> (\<not> is_preempt_requested E (polls s) \<and> num_tries s \<noteq> max_tries s
        \<and> \<not> head_scan_result E (scans s) \<longrightarrow>
        (\<exists>s'. move_base_aruco_callback (Suc n) E r s = Returned s' \<and> polls s' = Suc (polls s) \<and>
           trace s' = trace s @
             [Sleep, HeadScanSendGoal (aruco_name s),
              PublishFeedback ''Could not find Aruco Marker. Stretch may be too far away, try moving it closer to the marker.'' ''error'',
              SetAborted]))
   \<and> (\<not> is_preempt_requested E (polls s) \<and> num_tries s \<noteq> max_tries s
        \<and> head_scan_result E (scans s)
        \<and> lookup_transform E (lookups s) ''map'' (aruco_name s) = Inl e \<and> caught e \<longrightarrow>
        (\<exists>s'. move_base_aruco_callback (Suc n) E r s = Returned s' \<and> polls s' = Suc (polls s) \<and>
           trace s' = trace s @
             [Sleep, HeadScanSendGoal (aruco_name s), LogInfo ''Could not publish pose to tf'',
              PublishFeedback ''Navigation failed, please try again.'' ''error'', SetAborted]))
   \<and> (\<not> is_preempt_requested E (polls s) \<and> num_tries s \<noteq> max_tries s
        \<and> head_scan_result E (scans s)
        \<and> lookup_transform E (lookups s) ''map'' (aruco_name s) = Inr m
        \<and> \<not> calculate_diff E (map_to_aruco s) m > 0.075 \<longrightarrow>
        (\<exists>s'. move_base_aruco_callback (Suc n) E r s = Returned s' \<and> polls s' = Suc (polls s) \<and>
           trace s' = trace s @
             [Sleep, HeadScanSendGoal (aruco_name s),
              PublishFeedback ''Navigation succeeded!'' ''success'', SetSucceeded]))"
proof (intro conjI impI)
  show "trace (cancel_goals s) = trace s @
     [Print ''cancel goals'', HeadScanCancelAll, MoveBaseCancelAll, SetPreempted]"
    by (rule cancel_goals_trace)
next
  assume p: "is_preempt_requested E (polls s)"
  show "\<exists>s'. execute_callback n E g s = Returned s' \<and> polls s' = Suc (polls s) \<and>
           trace s' = trace s @
             [PublishFeedback ''Scanning for marker...'' ''info'', HeadScanSendGoal (goal_name g),
              Print ''preempt callback'', PublishFeedback ''Aruco navigation cancelled!'' ''error'']"
    unfolding execute_preempt[OF p] by simp
  show "\<exists>s'. move_base_aruco_callback (Suc n) E r s = Returned s' \<and> polls s' = Suc (polls s) \<and>
           trace s' = trace s @
             [Print ''preempt callback'', PublishFeedback ''Aruco navigation cancelled!'' ''error'']"
    using p by (simp add: callback_preempt)
next
  assume a: "\<not> is_preempt_requested E (polls s) \<and> num_tries s \<noteq> max_tries s
        \<and> \<not> head_scan_result E (scans s)"
  then have np: "\<not> is_preempt_requested E (polls s)" and ne: "num_tries s \<noteq> max_tries s"
    by blast+
  show "\<exists>s'. move_base_aruco_callback (Suc n) E r s = Returned s' \<and> polls s' = Suc (polls s) \<and>
           trace s' = trace s @
             [Sleep, HeadScanSendGoal (aruco_name s),
              PublishFeedback ''Could not find Aruco Marker. Stretch may be too far away, try moving it closer to the marker.'' ''error'',
              SetAborted]"
    unfolding callback_unfold[OF np ne] using a by simp
next
  assume a: "\<not> is_preempt_requested E (polls s) \<and> num_tries s \<noteq> max_tries s
        \<and> head_scan_result E (scans s)
        \<and> lookup_transform E (lookups s) ''map'' (aruco_name s) = Inl e \<and> caught e"
  then have np: "\<not> is_preempt_requested E (polls s)" and ne: "num_tries s \<noteq> max_tries s"
    by blast+
  show "\<exists>s'. move_base_aruco_callback (Suc n) E r s = Returned s' \<and> polls s' = Suc (polls s) \<and>
           trace s' = trace s @
             [Sleep, HeadScanSendGoal (aruco_name s), LogInfo ''Could not publish pose to tf'',
              PublishFeedback ''Navigation failed, please try again.'' ''error'', SetAborted]"
    unfolding callback_unfold[OF np ne] using a by simp
next
  assume a: "\<not> is_preempt_requested E (polls s) \<and> num_tries s \<noteq> max_tries s
        \<and> head_scan_result E (scans s)
        \<and> lookup_transform E (lookups s) ''map'' (aruco_name s) = Inr m
        \<and> \<not> calculate_diff E (map_to_aruco s) m > 0.075"
  then have np: "\<not> is_preempt_requested E (polls s)" and ne: "num_tries s \<noteq> max_tries s"
    by blast+
  show "\<exists>s'. move_base_aruco_callback (Suc n) E r s = Returned s' \<and> polls s' = Suc (polls s) \<and>
           trace s' = trace s @
             [Sleep, HeadScanSendGoal (aruco_name s),
              PublishFeedback ''Navigation succeeded!'' ''success'', SetSucceeded]"
    unfolding callback_unfold[OF np ne] using a by (simp add: report_success_def)
qed

theorem rescan_wait_not_polled_witness:
  "\<exists>s'. execute_callback 6 late_cancel_env test_goal init = Returned s'
      \<and> polls s' = 3 \<and> is_preempt_requested late_cancel_env (polls s')
      \<and> head_scans (trace s') = 2 \<and> attempts (trace s') = 1
      \<and> server_calls (trace s') =
          [PublishFeedback ''Scanning for marker...'' ''info'',
           PublishFeedback ''Navigating to marker...'' ''info'',
           PublishFeedback ''Navigation succeeded!'' ''success'', SetSucceeded]"
proof -
  let ?E = late_cancel_env
  let ?m = "test_pose 0 ''map'' ''dock''"
  let ?s0 = "started ?E test_goal (test_pose 0 ''base_link'' ''dock'') ?m init"
  have i: "max_tries init = 3" "polls init = 0" "scans init = 0" "trace init = []"
    "lookups init = 0" "navs init = 0"
    by (simp_all add: init_def)
  have g: "goal_name test_goal = ''dock''" by (simp add: test_goal_def)
  have e0: "execute_callback 6 ?E test_goal init = navigate_to_marker 6 ?E ?s0"
    by (rule execute_started) (simp_all add: i g)
  have np: "\<not> is_preempt_requested ?E (polls ?s0)" by (simp add: i)
  have lk: "\<forall>i<10. lookup_transform ?E (lookups ?s0 + i) ''map'' ''relative_pose'' =
      Inr (test_pose 0 ''map'' ''relative_pose'')"
    by simp
  from navigate_sampled[where E = ?E and s = ?s0
      and w = "\<lambda>k. test_pose 0 ''map'' ''relative_pose''" and n = 5, OF np lk]
  obtain h :: heap where e1: "navigate_to_marker (Suc 5) ?E ?s0 =
       move_base_aruco_callback 5 ?E (move_base_result ?E (navs ?s0))
         (send_goal (h 0) ((begin_cycle ?s0)\<lparr>lookups := lookups ?s0 + 10\<rparr>))"
    by blast
  let ?s1 = "send_goal (h 0) ((begin_cycle ?s0)\<lparr>lookups := lookups ?s0 + 10\<rparr>)"
  have d: "\<not> calculate_diff ?E ?m ?m > 0.075" by (simp add: late_cancel_env_diff)
  from rescan_wait_not_polled[where E = ?E and s = ?s1 and n = 4 and m = ?m
      and r = "move_base_result ?E (navs ?s0)"] d
  obtain s' where e2: "move_base_aruco_callback (Suc 4) ?E (move_base_result ?E (navs ?s0)) ?s1 =
       Returned s'"
    and p: "polls s' = Suc (polls ?s1)"
    and t: "trace s' = trace ?s1 @
       [Sleep, HeadScanSendGoal (aruco_name ?s1),
        PublishFeedback ''Navigation succeeded!'' ''success'', SetSucceeded]"
    by (auto simp: i g)
  have "execute_callback 6 ?E test_goal init = Returned s'"
    using e0 e1 e2 by (simp add: eval_nat_numeral)
  moreover have "polls s' = 3" using p by (simp add: i)
  moreover have "head_scans (trace s') = 2" "attempts (trace s') = 1"
    "server_calls (trace s') =
          [PublishFeedback ''Scanning for marker...'' ''info'',
           PublishFeedback ''Navigating to marker...'' ''info'',
           PublishFeedback ''Navigation succeeded!'' ''success'', SetSucceeded]"
    unfolding t by (simp_all add: i g)
  ultimately show ?thesis by simp
qed

end
